theory Spec2Isabelle
  imports Complex_Main "HOL-Library.AList"
begin

section \<open>JSON values and Python dictionary access\<close>

text \<open>
  The values that \<^verbatim>\<open>r.json()\<close> yields and that are sent as request bodies. A Python
  \<^verbatim>\<open>dict\<close> keeps its insertion order, so an object is an association list; Python's
  \<^verbatim>\<open>None\<close> is \<open>JNull\<close>. Numbers are integers here: no function of the module looks
  inside a number.
\<close>

datatype json_value =
    JNull
  | JBool bool
  | JNum int
  | JStr string
  | JArr "json_value list"
  | JObj "(string \<times> json_value) list"

type_synonym py_dict = "(string \<times> json_value) list"
type_synonym http_headers = "(string \<times> string) list"

text \<open>
  The arguments of an \<^verbatim>\<open>APIQueryFailedException\<close> are a message, a status code, the raw
  bytes of a body, or a JSON value (a decoded body, or the request dictionary with the
  token masked). The other constructors are the built-in exceptions the module can raise
  (their messages are not kept) and the exceptions of \<^verbatim>\<open>requests.post\<close>: a connection error,
  a timeout, or any other one.
\<close>

datatype exc_arg = AStr string | AInt int | ABytes string | AJson json_value

datatype request_exception = ConnectionError | Timeout | OtherRequestException

datatype error =
    APIQueryFailedException "exc_arg list"
  | AssertionError
  | ValueError
  | KeyError string
  | IndexError
  | TypeError
  | AttributeError
  | JSONDecodeError
  | RequestException request_exception
  | NotImplementedError string

text \<open>Truth value testing, as \<^verbatim>\<open>if not json_data['success']\<close> performs it.\<close>

fun truthy :: "json_value \<Rightarrow> bool" where
  "truthy JNull = False"
| "truthy (JBool b) = b"
| "truthy (JNum n) = (n \<noteq> 0)"
| "truthy (JStr s) = (s \<noteq> [])"
| "truthy (JArr xs) = (xs \<noteq> [])"
| "truthy (JObj kvs) = (kvs \<noteq> [])"

text \<open>\<^verbatim>\<open>not geolevel\<close> on an \<^verbatim>\<open>Optional[str]\<close>: \<^verbatim>\<open>None\<close> and the empty string are false.\<close>

fun truthy_str :: "string option \<Rightarrow> bool" where
  "truthy_str None = False"
| "truthy_str (Some s) = (s \<noteq> [])"

text \<open>Subscription with a string key: \<^verbatim>\<open>j['success']\<close>.\<close>

fun getitem :: "json_value \<Rightarrow> string \<Rightarrow> error + json_value" where
  "getitem (JObj kvs) k = (case map_of kvs k of None \<Rightarrow> Inl (KeyError k) | Some v \<Rightarrow> Inr v)"
| "getitem j k = Inl TypeError"

text \<open>Subscription with the index 0: \<^verbatim>\<open>d[0]\<close>.\<close>

fun getitem0 :: "json_value \<Rightarrow> error + json_value" where
  "getitem0 (JArr xs) = (case xs of [] \<Rightarrow> Inl IndexError | x # _ \<Rightarrow> Inr x)"
| "getitem0 (JStr s) = (case s of [] \<Rightarrow> Inl IndexError | c # _ \<Rightarrow> Inr (JStr [c]))"
| "getitem0 (JObj kvs) = Inl (KeyError ''0'')"
| "getitem0 j = Inl TypeError"

text \<open>\<^verbatim>\<open>d.items()\<close>: only a dictionary has the method.\<close>

fun items :: "json_value \<Rightarrow> error + py_dict" where
  "items (JObj kvs) = Inr kvs"
| "items j = Inl AttributeError"

text \<open>\<^verbatim>\<open>{**json_dict, 'token': '**********'}\<close>: the key keeps its place, or is appended.\<close>

definition mask_token :: "py_dict \<Rightarrow> py_dict" where
  "mask_token json_dict = AList.update ''token'' (JStr ''**********'') json_dict"

section \<open>The network, the clock and the console\<close>

record request =
  req_url :: string
  req_json :: py_dict
  req_headers :: "http_headers option"
  req_timeout :: "rat option"

record response =
  status_code :: int
  content :: string
  json_body :: "json_value option"

datatype outcome = Respond response | Raise request_exception

text \<open>
  Everything the module does to the outside is logged: the POSTs issued, in order, the
  durations passed to \<^verbatim>\<open>time.sleep\<close>, and the lines printed.
\<close>

record world =
  posts :: "request list"
  sleeps :: "rat list"
  stdout :: "string list"

text \<open>
  The collaborators of the module. The constants of \<^verbatim>\<open>strato_query.constants\<close>, the token
  provider and the pandas functions are parameters, as is the transport: the outcome of the
  \<open>n\<close>-th POST of the run (counted from 0) for the request it carries.
\<close>

record 'df env =
  MAX_RETRIES :: nat
  API_URL :: string
  BUFFERS_TUPLE :: "string list"
  get_api_token :: string
  pd_DataFrame :: "json_value \<Rightarrow> error + 'df"
  upper_columns :: "'df \<Rightarrow> error + 'df"
  pd_read_csv :: "string \<Rightarrow> error + 'df"
  pd_read_json :: "string \<Rightarrow> error + 'df"
  transport :: "nat \<Rightarrow> request \<Rightarrow> outcome"

definition requests_post :: "'df env \<Rightarrow> request \<Rightarrow> world \<Rightarrow> (error + response) \<times> world" where
  "requests_post E rq w =
     (case transport E (length (posts w)) rq of
        Raise x \<Rightarrow> (Inl (RequestException x), w\<lparr>posts := posts w @ [rq]\<rparr>)
      | Respond r \<Rightarrow> (Inr r, w\<lparr>posts := posts w @ [rq]\<rparr>))"

text \<open>\<^verbatim>\<open>time.sleep\<close> refuses a negative duration.\<close>

definition time_sleep :: "rat \<Rightarrow> world \<Rightarrow> (error + unit) \<times> world" where
  "time_sleep t w = (if t < 0 then (Inl ValueError, w) else (Inr (), w\<lparr>sleeps := sleeps w @ [t]\<rparr>))"

definition print_line :: "string \<Rightarrow> world \<Rightarrow> world" where
  "print_line s w = w\<lparr>stdout := stdout w @ [s]\<rparr>"

definition response_json :: "response \<Rightarrow> error + json_value" where
  "response_json r = (case json_body r of None \<Rightarrow> Inl JSONDecodeError | Some j \<Rightarrow> Inr j)"

section \<open>Submitting a query: \<^verbatim>\<open>_submit_post_request\<close>\<close>

definition msg_too_much_data :: string where
  "msg_too_much_data = ''Query has timed out. The most likely cause is a query calling for too much data at once. Please check the filters and avoid calling for unnecessary data.''"

definition msg_retries_exhausted :: string where
  "msg_retries_exhausted = ''Query has timed out. The most likely cause is a query calling for too much data at once. Please check the filters and avoid calling for unnecessary data. Also possible are that the timeout value may have been set too low, or a network error could be preventing proper communication with the API server.''"

definition query_request :: "'df env \<Rightarrow> py_dict \<Rightarrow> rat option \<Rightarrow> http_headers option \<Rightarrow> request" where
  "query_request E json_dict timeout headers =
     \<lparr>req_url = API_URL E, req_json = json_dict, req_headers = headers, req_timeout = timeout\<rparr>"

text \<open>
  What the body of the \<^verbatim>\<open>try\<close> does with a response that arrived: none of the exceptions
  raised here is a connection error or a timeout, so none is caught.
\<close>

definition classify :: "py_dict \<Rightarrow> response \<Rightarrow> error + json_value" where
  "classify json_dict r =
     (if status_code r \<noteq> 200 then
        (if status_code r = 520 then
           Inl (APIQueryFailedException [AStr msg_too_much_data, AJson (JObj (mask_token json_dict))])
         else
           Inl (APIQueryFailedException
                  [AInt (status_code r), ABytes (content r), AJson (JObj (mask_token json_dict))]))
      else
        (case response_json r of
           Inl e \<Rightarrow> Inl e
         | Inr json_data \<Rightarrow>
             (case getitem json_data ''success'' of
                Inl e \<Rightarrow> Inl e
              | Inr s \<Rightarrow>
                  if \<not> truthy s then Inl (APIQueryFailedException [AJson json_data])
                  else Inr json_data)))"

text \<open>
  The loop \<^verbatim>\<open>for retry_num in range(cc.MAX_RETRIES + 1)\<close>, by recursion on the indices
  still to run. A loop that ran out of indices would let the function return \<^verbatim>\<open>None\<close>.
\<close>

fun submit_attempts ::
  "'df env \<Rightarrow> py_dict \<Rightarrow> rat option \<Rightarrow> http_headers option \<Rightarrow> nat list \<Rightarrow> world
     \<Rightarrow> (error + json_value) \<times> world" where
  "submit_attempts E json_dict timeout headers [] w = (Inr JNull, w)"
| "submit_attempts E json_dict timeout headers (retry_num # rest) w =
     (case requests_post E (query_request E json_dict timeout headers) w of
        (Inr r, w1) \<Rightarrow> (classify json_dict r, w1)
      | (Inl e, w1) \<Rightarrow>
          if e = RequestException ConnectionError \<or> e = RequestException Timeout then
            (if retry_num \<ge> MAX_RETRIES E then
               (Inl (APIQueryFailedException
                       [AStr msg_retries_exhausted, AJson (JObj (mask_token json_dict))]), w1)
             else
               (case time_sleep (1 / 2 * (1 + of_nat retry_num)) w1 of
                  (Inl e', w2) \<Rightarrow> (Inl e', w2)
                | (Inr u, w2) \<Rightarrow> submit_attempts E json_dict timeout headers rest w2))
          else (Inl e, w1))"

definition submit_post_request ::
  "'df env \<Rightarrow> py_dict \<Rightarrow> rat option \<Rightarrow> http_headers option \<Rightarrow> world
     \<Rightarrow> (error + json_value) \<times> world" where
  "submit_post_request E json_dict timeout headers w =
     submit_attempts E json_dict timeout headers [0 ..< MAX_RETRIES E + 1] w"

section \<open>\<^verbatim>\<open>SDAPIQuery\<close>\<close>

text \<open>
  Modelled from the spec: \<^verbatim>\<open>APIQueryParams\<close> (module \<^verbatim>\<open>query_structures\<close>) is an opaque,
  serializable structured query; all that the module asks of it is \<^verbatim>\<open>to_api_struct()\<close>.
\<close>

datatype APIQueryParams = APIQueryParams (to_api_struct: json_value)

text \<open>\<^verbatim>\<open>df_ = pandas.DataFrame(v); df_.columns = [c.upper() for c in df_.columns]\<close>\<close>

definition to_upper_df :: "'df env \<Rightarrow> json_value \<Rightarrow> error + 'df" where
  "to_upper_df E v = (case pd_DataFrame E v of Inl e \<Rightarrow> Inl e | Inr df \<Rightarrow> upper_columns E df)"

definition query_api_json ::
  "'df env \<Rightarrow> APIQueryParams \<Rightarrow> rat option \<Rightarrow> http_headers option \<Rightarrow> world
     \<Rightarrow> (error + json_value) \<times> world" where
  "query_api_json E query_params timeout headers w =
     (case submit_post_request E
             [(''token'', JStr (get_api_token E)), (''query'', to_api_struct query_params)]
             timeout headers w of
        (Inl e, w1) \<Rightarrow> (Inl e, w1)
      | (Inr json_data, w1) \<Rightarrow>
          (case getitem json_data ''data'' of
             Inl e \<Rightarrow> (Inl e, w1)
           | Inr d \<Rightarrow> (getitem0 d, w1)))"

definition query_api_df ::
  "'df env \<Rightarrow> APIQueryParams \<Rightarrow> rat option \<Rightarrow> http_headers option \<Rightarrow> world
     \<Rightarrow> (error + 'df) \<times> world" where
  "query_api_df E query_params timeout headers w =
     (case submit_post_request E
             [(''token'', JStr (get_api_token E)), (''query'', to_api_struct query_params)]
             timeout headers w of
        (Inl e, w1) \<Rightarrow> (Inl e, w1)
      | (Inr json_data, w1) \<Rightarrow>
          (case getitem json_data ''data'' of
             Inl e \<Rightarrow> (Inl e, w1)
           | Inr d \<Rightarrow> (to_upper_df E d, w1)))"

text \<open>
  \<^verbatim>\<open>range(start, stop, step)\<close> for a positive step (the step of the chunk loop is the
  chunk size, asserted positive before the loop), and the slice \<^verbatim>\<open>xs[i:j]\<close>.
\<close>

function py_range :: "nat \<Rightarrow> nat \<Rightarrow> nat \<Rightarrow> nat list" where
  "py_range start stop step =
     (if start < stop \<and> 0 < step then start # py_range (start + step) stop step else [])"
  by pat_completeness auto
termination
  by (relation "measure (\<lambda>(start, stop, step). stop - start)") auto

definition slice :: "'a list \<Rightarrow> nat \<Rightarrow> nat \<Rightarrow> 'a list" where
  "slice xs i j = take (j - i) (drop i xs)"

text \<open>
  \<^verbatim>\<open>{k: queries[k].to_api_struct() for k in keys_chunk}\<close>: the entries are inserted in the
  order of \<^verbatim>\<open>keys_chunk\<close> into the dictionary built so far, which starts empty.
\<close>

fun dict_comprehension ::
  "(string \<times> APIQueryParams) list \<Rightarrow> string list \<Rightarrow> py_dict \<Rightarrow> error + py_dict" where
  "dict_comprehension queries [] acc = Inr acc"
| "dict_comprehension queries (k # ks) acc =
     (case map_of queries k of
        None \<Rightarrow> Inl (KeyError k)
      | Some q \<Rightarrow> dict_comprehension queries ks (AList.update k (to_api_struct q) acc))"

text \<open>\<^verbatim>\<open>dict(token=get_api_token(), queries={...})\<close>\<close>

definition batch_dict :: "'df env \<Rightarrow> py_dict \<Rightarrow> py_dict" where
  "batch_dict E structs = [(''token'', JStr (get_api_token E)), (''queries'', JObj structs)]"

text \<open>The inner loop \<^verbatim>\<open>for k, v in json_data['data'].items()\<close>.\<close>

fun merge_frames :: "'df env \<Rightarrow> py_dict \<Rightarrow> (string \<times> 'df) list \<Rightarrow> error + (string \<times> 'df) list" where
  "merge_frames E [] df_dict = Inr df_dict"
| "merge_frames E ((k, v) # kvs) df_dict =
     (case to_upper_df E v of
        Inl e \<Rightarrow> Inl e
      | Inr df \<Rightarrow> merge_frames E kvs (AList.update k df df_dict))"

text \<open>The loop \<^verbatim>\<open>for idx_chunk in range(0, len(keys_list), chunksize)\<close>.\<close>

fun chunk_loop ::
  "'df env \<Rightarrow> (string \<times> APIQueryParams) list \<Rightarrow> string list \<Rightarrow> rat option \<Rightarrow> nat \<Rightarrow> rat option
     \<Rightarrow> http_headers option \<Rightarrow> nat list \<Rightarrow> (string \<times> 'df) list \<Rightarrow> world
     \<Rightarrow> (error + (string \<times> 'df) list) \<times> world" where
  "chunk_loop E queries keys_list timeout chunksize time_between_chunks headers [] df_dict w =
     (Inr df_dict, w)"
| "chunk_loop E queries keys_list timeout chunksize time_between_chunks headers
     (idx_chunk # rest) df_dict w =
     (case dict_comprehension queries (slice keys_list idx_chunk (idx_chunk + chunksize)) [] of
        Inl e \<Rightarrow> (Inl e, w)
      | Inr structs \<Rightarrow>
          (case submit_post_request E (batch_dict E structs) timeout headers w of
             (Inl e, w1) \<Rightarrow> (Inl e, w1)
           | (Inr json_data, w1) \<Rightarrow>
               (case getitem json_data ''data'' of
                  Inl e \<Rightarrow> (Inl e, w1)
                | Inr d \<Rightarrow>
                    (case items d of
                       Inl e \<Rightarrow> (Inl e, w1)
                     | Inr kvs \<Rightarrow>
                         (case merge_frames E kvs df_dict of
                            Inl e \<Rightarrow> (Inl e, w1)
                          | Inr df_dict' \<Rightarrow>
                              (case time_between_chunks of
                                 Some t \<Rightarrow>
                                   if idx_chunk + chunksize < length keys_list then
                                     (case time_sleep t w1 of
                                        (Inl e, w2) \<Rightarrow> (Inl e, w2)
                                      | (Inr u, w2) \<Rightarrow>
                                          chunk_loop E queries keys_list timeout chunksize
                                            time_between_chunks headers rest df_dict' w2)
                                   else
                                     chunk_loop E queries keys_list timeout chunksize
                                       time_between_chunks headers rest df_dict' w1
                               | None \<Rightarrow>
                                   chunk_loop E queries keys_list timeout chunksize
                                     time_between_chunks headers rest df_dict' w1))))))"

definition query_api_multiple ::
  "'df env \<Rightarrow> (string \<times> APIQueryParams) list \<Rightarrow> rat option \<Rightarrow> int \<Rightarrow> rat option
     \<Rightarrow> http_headers option \<Rightarrow> world \<Rightarrow> (error + (string \<times> 'df) list) \<times> world" where
  "query_api_multiple E queries timeout chunksize time_between_chunks headers w =
     (if \<not> chunksize > 0 then (Inl AssertionError, w)
      else
        (let keys_list = map fst queries in
         chunk_loop E queries keys_list timeout (nat chunksize) time_between_chunks headers
           (py_range 0 (length keys_list) (nat chunksize)) [] w))"




text \<open>
  The last branch stands for both arguments being \<^verbatim>\<open>None\<close>, which the first assertion has
  already refused: it is never reached.
\<close>

section \<open>\<^verbatim>\<open>SDJobRunner\<close>\<close>

text \<open>The fields \<^verbatim>\<open>_logging\<close>, \<^verbatim>\<open>_job_id\<close> (initially \<^verbatim>\<open>None\<close>) and \<^verbatim>\<open>_response_format\<close>.\<close>

record SDJobRunner =
  self_logging :: bool
  self_job_id :: json_value
  self_response_format :: string

definition init_SDJobRunner :: "bool \<Rightarrow> SDJobRunner" where
  "init_SDJobRunner logging =
     \<lparr>self_logging = logging, self_job_id = JNull, self_response_format = ''csv''\<rparr>"

definition log_line :: "SDJobRunner \<Rightarrow> string \<Rightarrow> world \<Rightarrow> world" where
  "log_line self s w = (if self_logging self then print_line s w else w)"

definition bearer_headers :: "'df env \<Rightarrow> http_headers option" where
  "bearer_headers E = Some [(''Authorization'', ''Bearer '' @ get_api_token E)]"

definition opt_str :: "string option \<Rightarrow> json_value" where
  "opt_str x = (case x of None \<Rightarrow> JNull | Some s \<Rightarrow> JStr s)"

definition create_request ::
  "'df env \<Rightarrow> string \<Rightarrow> string option \<Rightarrow> string \<Rightarrow> string option \<Rightarrow> int list \<Rightarrow> string list
     \<Rightarrow> request" where
  "create_request E model_id geolevel response_format portfolio_id geoid_list buffers =
     \<lparr>req_url = ''https://api.stratodem.com/jobs/create'',
      req_json =
        [(''model_id'', JStr model_id),
         (''portfolio_id'', opt_str portfolio_id),
         (''geolevel'', opt_str geolevel),
         (''response_format'', JStr response_format),
         (''geoid_list'', JArr (map JNum geoid_list)),
         (''buffers'', JArr (map JStr buffers))],
      req_headers = bearer_headers E,
      req_timeout = None\<rparr>"

text \<open>
  The checks of \<^verbatim>\<open>create_job\<close> that come before the POST, in the order of the source; the
  \<^verbatim>\<open>isinstance\<close> assertions hold by the types of the arguments. \<open>None\<close> means that all
  of them passed.
\<close>

definition create_job_checks ::
  "'df env \<Rightarrow> string option \<Rightarrow> string \<Rightarrow> string option \<Rightarrow> string list option \<Rightarrow> error option" where
  "create_job_checks E geolevel response_format portfolio_id buffers =
     (if response_format \<notin> {''csv'', ''json''} then Some AssertionError
      else if \<not> (case buffers of None \<Rightarrow> True
                  | Some bs \<Rightarrow> \<forall>buffer \<in> set bs. buffer \<in> set (BUFFERS_TUPLE E))
        then Some AssertionError
      else if \<not> truthy_str geolevel \<and> \<not> truthy_str portfolio_id then Some ValueError
      else if truthy_str geolevel then
        (if geolevel \<notin> Some ` {''US'', ''METRO'', ''GEOID2'', ''GEOID5'', ''ZIP'', ''GEOID11''}
           then Some AssertionError
         else if portfolio_id \<noteq> None then Some AssertionError
         else None)
      else None)"

definition create_job ::
  "'df env \<Rightarrow> SDJobRunner \<Rightarrow> string \<Rightarrow> string option \<Rightarrow> string \<Rightarrow> string option
     \<Rightarrow> int list option \<Rightarrow> string list option \<Rightarrow> world \<Rightarrow> (error + SDJobRunner) \<times> world" where
  "create_job E self model_id geolevel response_format portfolio_id geoid_list buffers w =
     (case create_job_checks E geolevel response_format portfolio_id buffers of
        Some e \<Rightarrow> (Inl e, w)
      | None \<Rightarrow>
          (let geoid_list' = (case geoid_list of None \<Rightarrow> [] | Some l \<Rightarrow> l);
               buffers' = (case buffers of None \<Rightarrow> [] | Some l \<Rightarrow> l);
               w0 = log_line self ''Sending create job request to API service'' w
           in case requests_post E
                     (create_request E model_id geolevel response_format portfolio_id
                        geoid_list' buffers') w0 of
                (Inl e, w1) \<Rightarrow> (Inl e, w1)
              | (Inr r, w1) \<Rightarrow>
                  (case response_json r of
                     Inl e \<Rightarrow> (Inl e, w1)
                   | Inr res \<Rightarrow>
                       (case getitem res ''success'' of
                          Inl e \<Rightarrow> (Inl e, w1)
                        | Inr s \<Rightarrow>
                            (case getitem res ''message'' of
                               Inl e \<Rightarrow> (Inl e, w1)
                             | Inr m \<Rightarrow>
                                 if truthy s then
                                   (case getitem m ''job_id'' of
                                      Inl e \<Rightarrow> (Inl e, w1)
                                    | Inr jid \<Rightarrow>
                                        (Inr (self\<lparr>self_job_id := jid,
                                                  self_response_format := response_format\<rparr>),
                                         log_line self ''Successfully created job request'' w1))
                                 else (Inl (APIQueryFailedException [AJson m]), w1))))))"

text \<open>\<^verbatim>\<open>_assert_job_created\<close>: the job id must be a string.\<close>

fun is_str :: "json_value \<Rightarrow> bool" where
  "is_str (JStr s) = True"
| "is_str j = False"

definition job_request :: "'df env \<Rightarrow> string \<Rightarrow> SDJobRunner \<Rightarrow> request" where
  "job_request E u self =
     \<lparr>req_url = u, req_json = [(''job_id'', self_job_id self)],
      req_headers = bearer_headers E, req_timeout = None\<rparr>"

definition status_request :: "'df env \<Rightarrow> SDJobRunner \<Rightarrow> request" where
  "status_request E self = job_request E ''https://api.stratodem.com/jobs/status'' self"

definition download_request :: "'df env \<Rightarrow> SDJobRunner \<Rightarrow> request" where
  "download_request E self = job_request E ''https://api.stratodem.com/jobs/download'' self"

definition check_job_status ::
  "'df env \<Rightarrow> SDJobRunner \<Rightarrow> world \<Rightarrow> (error + json_value) \<times> world" where
  "check_job_status E self w =
     (if \<not> is_str (self_job_id self) then (Inl AssertionError, w)
      else
        (case requests_post E (status_request E self) w of
           (Inl e, w1) \<Rightarrow> (Inl e, w1)
         | (Inr r, w1) \<Rightarrow>
             if status_code r \<noteq> 200 then
               (Inl (APIQueryFailedException [AStr ''Failed to determine job status'']), w1)
             else
               (case response_json r of
                  Inl e \<Rightarrow> (Inl e, w1)
                | Inr j \<Rightarrow>
                    (case getitem j ''success'' of
                       Inl e \<Rightarrow> (Inl e, w1)
                     | Inr s \<Rightarrow>
                         if \<not> truthy s then (Inl (APIQueryFailedException [AJson j]), w1)
                         else (getitem j ''message'', w1)))))"

definition download_job_to_dataframe ::
  "'df env \<Rightarrow> SDJobRunner \<Rightarrow> world \<Rightarrow> (error + 'df) \<times> world" where
  "download_job_to_dataframe E self w =
     (if \<not> is_str (self_job_id self) then (Inl AssertionError, w)
      else
        (case requests_post E (download_request E self) w of
           (Inl e, w1) \<Rightarrow> (Inl e, w1)
         | (Inr r, w1) \<Rightarrow>
             if status_code r \<noteq> 200 then
               (Inl (APIQueryFailedException [AStr ''Failed to download file'']), w1)
             else if self_response_format self = ''csv'' then (pd_read_csv E (content r), w1)
             else if self_response_format self = ''json'' then (pd_read_json E (content r), w1)
             else (Inl (NotImplementedError (self_response_format self)), w1)))"

text \<open>
  The loop \<^verbatim>\<open>for idx in range(100)\<close> of \<^verbatim>\<open>load_df_from_job_pipeline\<close>, by recursion on the
  number of iterations left; the statement after the loop is the case of none left.
\<close>

fun poll_loop :: "'df env \<Rightarrow> SDJobRunner \<Rightarrow> nat \<Rightarrow> world \<Rightarrow> (error + 'df) \<times> world" where
  "poll_loop E self 0 w =
     (Inl (APIQueryFailedException [AStr ''Job never completed successfully'']), w)"
| "poll_loop E self (Suc n) w =
     (case check_job_status E self (log_line self ''Checking if job is complete...'' w) of
        (Inl e, w1) \<Rightarrow> (Inl e, w1)
      | (Inr job_status, w1) \<Rightarrow>
          if job_status = JStr ''Completed'' then download_job_to_dataframe E self w1
          else if job_status = JStr ''Processing'' then
            (case time_sleep 10 w1 of
               (Inl e, w2) \<Rightarrow> (Inl e, w2)
             | (Inr u, w2) \<Rightarrow> poll_loop E self n w2)
          else (Inl (APIQueryFailedException [AStr ''Job failed'', AJson job_status]), w1))"

text \<open>The runner after the call is returned with the result: \<^verbatim>\<open>create_job\<close> updates it.\<close>

definition load_df_from_job_pipeline ::
  "'df env \<Rightarrow> SDJobRunner \<Rightarrow> string \<Rightarrow> string option \<Rightarrow> string \<Rightarrow> string option
     \<Rightarrow> string list option \<Rightarrow> int list option \<Rightarrow> world
     \<Rightarrow> (error + 'df) \<times> SDJobRunner \<times> world" where
  "load_df_from_job_pipeline E self model_id geolevel response_format portfolio_id buffers
     geoid_list w =
     (case create_job E self model_id geolevel response_format portfolio_id geoid_list buffers w of
        (Inl e, w1) \<Rightarrow> (Inl e, self, w1)
      | (Inr self', w1) \<Rightarrow>
          (case poll_loop E self' 100 w1 of (res, w2) \<Rightarrow> (res, self', w2)))"

section \<open>Notions used to state the properties\<close>

text \<open>A connection error or a timeout: the two exceptions the retry loop catches.\<close>

definition transient :: "outcome \<Rightarrow> bool" where
  "transient out \<longleftrightarrow> out = Raise ConnectionError \<or> out = Raise Timeout"









text \<open>
  A response to the status request that reports the status \<open>st\<close>: status code 200 and a
  body with a true \<^verbatim>\<open>success\<close> field and \<open>st\<close> as its \<^verbatim>\<open>message\<close>.
\<close>

definition reports :: "response \<Rightarrow> json_value \<Rightarrow> bool" where
  "reports r st \<longleftrightarrow>
     status_code r = 200 \<and>
     (case json_body r of
        None \<Rightarrow> False
      | Some j \<Rightarrow>
          (case getitem j ''success'' of Inl e \<Rightarrow> False | Inr s \<Rightarrow> truthy s)
          \<and> getitem j ''message'' = Inr st)"

section \<open>Test doubles\<close>

text \<open>
  A transport that plays a script, one outcome per POST, and an environment around it whose
  pandas functions hand back what they were given, so that a result shows what was decoded.
  The URL and the buffer names stand for the constants of the package.
\<close>

definition scripted :: "outcome list \<Rightarrow> nat \<Rightarrow> request \<Rightarrow> outcome" where
  "scripted outs n rq = (if n < length outs then outs ! n else Raise OtherRequestException)"

definition recording_env :: "nat \<Rightarrow> string \<Rightarrow> (nat \<Rightarrow> request \<Rightarrow> outcome) \<Rightarrow> json_value env" where
  "recording_env retries token net =
     \<lparr>MAX_RETRIES = retries,
      API_URL = ''https://api.stratodem.com/api'',
      BUFFERS_TUPLE = [''1-mile'', ''5-mile''],
      get_api_token = token,
      pd_DataFrame = Inr,
      upper_columns = Inr,
      pd_read_csv = (\<lambda>c. Inr (JStr c)),
      pd_read_json = (\<lambda>c. Inr (JStr c)),
      transport = net\<rparr>"

definition ok_response :: "json_value \<Rightarrow> response" where
  "ok_response j = \<lparr>status_code = 200, content = [], json_body = Some j\<rparr>"

definition status_response :: "int \<Rightarrow> string \<Rightarrow> response" where
  "status_response code body = \<lparr>status_code = code, content = body, json_body = None\<rparr>"

definition success_body :: "string \<Rightarrow> json_value \<Rightarrow> json_value" where
  "success_body field v = JObj [(''success'', JBool True), (field, v)]"

definition fresh_world :: world where
  "fresh_world = \<lparr>posts = [], sleeps = [], stdout = []\<rparr>"

definition demo_dict :: py_dict where
  "demo_dict = [(''token'', JStr ''tok''), (''query'', JStr ''q'')]"

definition flaky_then_ok :: "json_value env" where
  "flaky_then_ok = recording_env 2 ''tok''
     (scripted [Raise ConnectionError, Raise Timeout,
                Respond (ok_response (success_body ''data'' (JArr [])))])"

definition always_down :: "json_value env" where
  "always_down = recording_env 2 ''tok''
     (scripted [Raise ConnectionError, Raise Timeout, Raise ConnectionError,
                Respond (ok_response (success_body ''data'' (JArr [])))])"

definition gateway_520 :: "json_value env" where
  "gateway_520 = recording_env 2 ''tok''
     (scripted [Raise Timeout, Respond (status_response 520 ''upstream gave up'')])"



definition demo_row :: json_value where
  "demo_row = JObj [(''name'', JStr ''Boston''), (''value'', JNum 1)]"

definition demo_query :: APIQueryParams where
  "demo_query = APIQueryParams (JStr ''q'')"

definition nested_reply :: "json_value env" where
  "nested_reply = recording_env 2 ''tok''
     (scripted [Respond (ok_response (success_body ''data'' (JArr [JArr [demo_row]])))])"

definition job_created_body :: json_value where
  "job_created_body = success_body ''message'' (JObj [(''job_id'', JStr ''job-1'')])"

definition job_server :: "json_value env" where
  "job_server = recording_env 2 ''tok'' (scripted [Respond (ok_response job_created_body)])"

definition runner0 :: SDJobRunner where
  "runner0 = init_SDJobRunner False"

definition unplugged :: "nat \<Rightarrow> request \<Rightarrow> outcome" where
  "unplugged n rq = Raise ConnectionError"

definition network_down :: "json_value env" where
  "network_down = recording_env 2 ''tok'' unplugged"

definition runner1 :: SDJobRunner where
  "runner1 = \<lparr>self_logging = False, self_job_id = JStr ''job-1'', self_response_format = ''csv''\<rparr>"

text \<open>The world after \<open>k\<close> polls that found the job still processing.\<close>

definition polled :: "'df env \<Rightarrow> SDJobRunner \<Rightarrow> nat \<Rightarrow> world \<Rightarrow> world" where
  "polled E self k w =
     w\<lparr>posts := posts w @ replicate k (status_request E self),
       sleeps := sleeps w @ replicate k 10,
       stdout := stdout w @
         replicate (if self_logging self then k else 0) ''Checking if job is complete...''\<rparr>"

definition processing_response :: response where
  "processing_response = ok_response (success_body ''message'' (JStr ''Processing''))"

definition job_done :: "json_value env" where
  "job_done = recording_env 2 ''tok''
     (scripted [Respond (ok_response job_created_body),
                Respond processing_response,
                Respond processing_response,
                Respond (ok_response (success_body ''message'' (JStr ''Completed''))),
                Respond (status_response 200 ''geoid,value'')])"

definition stuck_transport :: "nat \<Rightarrow> request \<Rightarrow> outcome" where
  "stuck_transport n rq =
     (if n = 0 then Respond (ok_response job_created_body) else Respond processing_response)"

definition job_stuck :: "json_value env" where
  "job_stuck = recording_env 2 ''tok'' stuck_transport"

definition job_cancelled :: "json_value env" where
  "job_cancelled = recording_env 2 ''tok''
     (scripted [Respond (ok_response job_created_body),
                Respond (ok_response (success_body ''message'' (JStr ''Cancelled'')))])"









section \<open>The retry loop\<close>

lemma requests_post_Raise:
  "transport E (length (posts w)) rq = Raise x \<Longrightarrow>
     requests_post E rq w = (Inl (RequestException x), w\<lparr>posts := posts w @ [rq]\<rparr>)"
  by (simp add: requests_post_def)

lemma requests_post_Respond:
  "transport E (length (posts w)) rq = Respond r \<Longrightarrow>
     requests_post E rq w = (Inr r, w\<lparr>posts := posts w @ [rq]\<rparr>)"
  by (simp add: requests_post_def)

lemma attempt_Respond:
  "transport E (length (posts w)) (query_request E jd t h) = Respond r \<Longrightarrow>
     submit_attempts E jd t h (i # rest) w =
       (classify jd r, w\<lparr>posts := posts w @ [query_request E jd t h]\<rparr>)"
  by (simp add: requests_post_Respond)

lemma attempt_transient_retry:
  "transport E (length (posts w)) (query_request E jd t h) = Raise e \<Longrightarrow>
   e = ConnectionError \<or> e = Timeout \<Longrightarrow> i < MAX_RETRIES E \<Longrightarrow>
     submit_attempts E jd t h (i # rest) w =
       submit_attempts E jd t h rest
         (w\<lparr>posts := posts w @ [query_request E jd t h],
            sleeps := sleeps w @ [1 / 2 * (1 + of_nat i)]\<rparr>)"
  by (auto simp add: requests_post_Raise time_sleep_def)

lemma attempt_transient_last:
  "transport E (length (posts w)) (query_request E jd t h) = Raise e \<Longrightarrow>
   e = ConnectionError \<or> e = Timeout \<Longrightarrow> MAX_RETRIES E \<le> i \<Longrightarrow>
     submit_attempts E jd t h (i # rest) w =
       (Inl (APIQueryFailedException
               [AStr msg_retries_exhausted, AJson (JObj (mask_token jd))]),
        w\<lparr>posts := posts w @ [query_request E jd t h]\<rparr>)"
  by (auto simp add: requests_post_Raise)


text \<open>
  While the transport raises transient failures and the budget lasts, the loop sleeps and
  goes on: \<open>k\<close> failures cost \<open>k\<close> POSTs and \<open>k\<close> growing delays.
\<close>

lemma transient_prefix:
  assumes "\<forall>j<k. transient (transport E (length (posts w) + j) (query_request E jd t h))"
    and "i + k \<le> MAX_RETRIES E" and "i + k \<le> m"
  shows "submit_attempts E jd t h [i ..< m] w =
         submit_attempts E jd t h [i + k ..< m]
           (w\<lparr>posts := posts w @ replicate k (query_request E jd t h),
              sleeps := sleeps w @ map (\<lambda>j. 1 / 2 * (1 + of_nat j)) [i ..< i + k]\<rparr>)"
  using assms
proof (induction k arbitrary: i w)
  case 0
  then show ?case by simp
next
  case (Suc k)
  let ?rq = "query_request E jd t h"
  let ?w1 = "w\<lparr>posts := posts w @ [?rq], sleeps := sleeps w @ [1 / 2 * (1 + of_nat i)]\<rparr>"
  from Suc.prems(1) have "transient (transport E (length (posts w)) ?rq)"
    by (metis add.right_neutral zero_less_Suc)
  then obtain e where e: "transport E (length (posts w)) ?rq = Raise e"
      "e = ConnectionError \<or> e = Timeout"
    by (auto simp: transient_def)
  have i: "i < MAX_RETRIES E" "i < m" using Suc.prems by simp_all
  have step: "submit_attempts E jd t h [i ..< m] w = submit_attempts E jd t h [Suc i ..< m] ?w1"
    using attempt_transient_retry[OF e i(1)] i(2) by (simp add: upt_conv_Cons)
  have hyp: "\<forall>j<k. transient (transport E (length (posts ?w1) + j) ?rq)"
    using Suc.prems(1) by (auto simp: less_Suc_eq_0_disj)
  have "submit_attempts E jd t h [Suc i ..< m] ?w1 =
        submit_attempts E jd t h [Suc i + k ..< m]
          (?w1\<lparr>posts := posts ?w1 @ replicate k ?rq,
                sleeps := sleeps ?w1 @ map (\<lambda>j. 1 / 2 * (1 + of_nat j)) [Suc i ..< Suc i + k]\<rparr>)"
    using Suc.IH[OF hyp] Suc.prems by simp
  moreover have "[i ..< i + Suc k] = i # [Suc i ..< Suc i + k]"
    by (simp add: upt_conv_Cons)
  ultimately show ?case using step
    by (simp add: replicate_app_Cons_same del: upt_Suc)
qed

lemma attempts_bound:
  "length (posts (snd (submit_attempts E jd t h idxs w))) \<le> length (posts w) + length idxs"
proof (induction idxs arbitrary: w)
  case Nil
  then show ?case by simp
next
  case (Cons i idxs)
  show ?case
  proof (cases "transport E (length (posts w)) (query_request E jd t h)")
    case (Respond r)
    then show ?thesis using attempt_Respond[OF Respond, of i idxs] by simp
  next
    case (Raise e)
    show ?thesis
    proof (cases "(e = ConnectionError \<or> e = Timeout) \<and> i < MAX_RETRIES E")
      case True
      then show ?thesis
        using attempt_transient_retry[OF Raise, of i idxs]
          Cons.IH[of "w\<lparr>posts := posts w @ [query_request E jd t h],
            sleeps := sleeps w @ [1 / 2 * (1 + of_nat i)]\<rparr>"]
        by simp
    next
      case False
      then show ?thesis using Raise by (auto simp: requests_post_Raise time_sleep_def)
    qed
  qed
qed

declare submit_attempts.simps(2) [simp del]

lemma classify_ok:
  "status_code r = 200 \<Longrightarrow> json_body r = Some payload \<Longrightarrow>
   getitem payload ''success'' = Inr s \<Longrightarrow> truthy s \<Longrightarrow> classify jd r = Inr payload"
  by (simp add: classify_def response_json_def)

lemma classify_520:
  "status_code r = 520 \<Longrightarrow>
   classify jd r = Inl (APIQueryFailedException [AStr msg_too_much_data, AJson (JObj (mask_token jd))])"
  by (simp add: classify_def)

text \<open>
  Claim C2. If the POST raises a connection error or a timeout exactly \<open>MAX_RETRIES\<close> times
  and then answers with a success body, \<^verbatim>\<open>_submit_post_request\<close> returns that decoded body,
  after \<open>MAX_RETRIES + 1\<close> POSTs and \<open>MAX_RETRIES\<close> growing delays. If it raises such a
  failure \<open>MAX_RETRIES + 1\<close> times, the call fails with the terminal ``Query has timed out''
  message of the source, written out below (it goes on, after the text of the 520 message,
  with the timeout value and the network as possible causes), and the masked request. In
  every run at most \<open>MAX_RETRIES + 1\<close> POSTs are made.
\<close>

theorem retry_budget:
  "((\<forall>j < MAX_RETRIES E. transient (transport E (length (posts w) + j) (query_request E jd t h)))
      \<and> transport E (length (posts w) + MAX_RETRIES E) (query_request E jd t h) = Respond r
      \<and> status_code r = 200 \<and> json_body r = Some payload
      \<and> getitem payload ''success'' = Inr s \<and> truthy s
    \<longrightarrow> submit_post_request E jd t h w =
          (Inr payload,
           w\<lparr>posts := posts w @ replicate (MAX_RETRIES E + 1) (query_request E jd t h),
              sleeps := sleeps w @ map (\<lambda>j. 1 / 2 * (1 + of_nat j)) [0 ..< MAX_RETRIES E]\<rparr>))
   \<and> ((\<forall>j < MAX_RETRIES E + 1. transient (transport E (length (posts w) + j) (query_request E jd t h)))
    \<longrightarrow> submit_post_request E jd t h w =
          (Inl (APIQueryFailedException
                  [AStr ''Query has timed out. The most likely cause is a query calling for too much data at once. Please check the filters and avoid calling for unnecessary data. Also possible are that the timeout value may have been set too low, or a network error could be preventing proper communication with the API server.'',
                   AJson (JObj (mask_token jd))]),
           w\<lparr>posts := posts w @ replicate (MAX_RETRIES E + 1) (query_request E jd t h),
              sleeps := sleeps w @ map (\<lambda>j. 1 / 2 * (1 + of_nat j)) [0 ..< MAX_RETRIES E]\<rparr>))
   \<and> length (posts (snd (submit_post_request E jd t h w))) \<le> length (posts w) + (MAX_RETRIES E + 1)"
proof (intro conjI impI)
  let ?rq = "query_request E jd t h"
  let ?M = "MAX_RETRIES E"
  let ?w = "w\<lparr>posts := posts w @ replicate ?M ?rq,
               sleeps := sleeps w @ map (\<lambda>j. 1 / 2 * (1 + of_nat j)) [0 ..< ?M]\<rparr>"
  have last_idx: "[?M ..< ?M + 1] = [?M]" by simp
  {
    assume a: "(\<forall>j < ?M. transient (transport E (length (posts w) + j) ?rq))
      \<and> transport E (length (posts w) + ?M) ?rq = Respond r
      \<and> status_code r = 200 \<and> json_body r = Some payload
      \<and> getitem payload ''success'' = Inr s \<and> truthy s"
    then have pre: "submit_attempts E jd t h [0 ..< ?M + 1] w = submit_attempts E jd t h [?M ..< ?M + 1] ?w"
      using transient_prefix[of ?M E w jd t h 0 "?M + 1"] by simp
    from a have "transport E (length (posts ?w)) ?rq = Respond r" by simp
    from attempt_Respond[OF this, of ?M "[]"] a
    have "submit_attempts E jd t h [?M] ?w = (Inr payload, ?w\<lparr>posts := posts ?w @ [?rq]\<rparr>)"
      by (simp add: classify_ok)
    with pre show "submit_post_request E jd t h w =
          (Inr payload,
           w\<lparr>posts := posts w @ replicate (?M + 1) ?rq,
              sleeps := sleeps w @ map (\<lambda>j. 1 / 2 * (1 + of_nat j)) [0 ..< ?M]\<rparr>)"
      unfolding submit_post_request_def last_idx by (simp add: replicate_append_same)
  }
  {
    assume a: "\<forall>j < ?M + 1. transient (transport E (length (posts w) + j) ?rq)"
    then have pre: "submit_attempts E jd t h [0 ..< ?M + 1] w = submit_attempts E jd t h [?M ..< ?M + 1] ?w"
      using transient_prefix[of ?M E w jd t h 0 "?M + 1"] by simp
    from a have "transient (transport E (length (posts ?w)) ?rq)" by simp
    then obtain e where e: "transport E (length (posts ?w)) ?rq = Raise e"
      "e = ConnectionError \<or> e = Timeout"
      by (auto simp: transient_def)
    from attempt_transient_last[OF e, of ?M "[]"]
    have "submit_attempts E jd t h [?M] ?w =
       (Inl (APIQueryFailedException [AStr msg_retries_exhausted, AJson (JObj (mask_token jd))]),
        ?w\<lparr>posts := posts ?w @ [?rq]\<rparr>)"
      by simp
    with pre show "submit_post_request E jd t h w =
          (Inl (APIQueryFailedException
                  [AStr ''Query has timed out. The most likely cause is a query calling for too much data at once. Please check the filters and avoid calling for unnecessary data. Also possible are that the timeout value may have been set too low, or a network error could be preventing proper communication with the API server.'',
                   AJson (JObj (mask_token jd))]),
           w\<lparr>posts := posts w @ replicate (?M + 1) ?rq,
              sleeps := sleeps w @ map (\<lambda>j. 1 / 2 * (1 + of_nat j)) [0 ..< ?M]\<rparr>)"
      unfolding submit_post_request_def last_idx
      by (simp add: replicate_append_same msg_retries_exhausted_def)
  }
  show "length (posts (snd (submit_post_request E jd t h w))) \<le> length (posts w) + (?M + 1)"
    unfolding submit_post_request_def using attempts_bound[of E jd t h "[0 ..< ?M + 1]" w] by simp
qed

lemma all_less_2: "(\<forall>j<2::nat. P j) \<longleftrightarrow> P 0 \<and> P 1"
  by (auto simp: less_2_cases_iff)

lemma all_less_3: "(\<forall>j<3::nat. P j) \<longleftrightarrow> P 0 \<and> P 1 \<and> P 2"
proof -
  have "j < 3 \<longleftrightarrow> j = 0 \<or> j = 1 \<or> j = 2" for j :: nat by arith
  then show ?thesis by auto
qed

text \<open>
  With a budget of 2: two failures and then a success, and three failures in a row.
\<close>

theorem retry_budget_witness:
  "submit_post_request flaky_then_ok demo_dict None None fresh_world =
     (Inr (success_body ''data'' (JArr [])),
      fresh_world\<lparr>posts := replicate 3 (query_request flaky_then_ok demo_dict None None),
                  sleeps := [1 / 2, 1]\<rparr>)
   \<and> submit_post_request always_down demo_dict None None fresh_world =
     (Inl (APIQueryFailedException
             [AStr ''Query has timed out. The most likely cause is a query calling for too much data at once. Please check the filters and avoid calling for unnecessary data. Also possible are that the timeout value may have been set too low, or a network error could be preventing proper communication with the API server.'',
              AJson (JObj [(''token'', JStr ''**********''), (''query'', JStr ''q'')])]),
      fresh_world\<lparr>posts := replicate 3 (query_request always_down demo_dict None None),
                  sleeps := [1 / 2, 1]\<rparr>)"
proof
  have M: "MAX_RETRIES flaky_then_ok = 2" "MAX_RETRIES always_down = 2"
    by (simp_all add: flaky_then_ok_def always_down_def recording_env_def)
  have t1: "transport flaky_then_ok = scripted [Raise ConnectionError, Raise Timeout,
                Respond (ok_response (success_body ''data'' (JArr [])))]"
    by (simp add: flaky_then_ok_def recording_env_def)
  have t2: "transport always_down = scripted [Raise ConnectionError, Raise Timeout, Raise ConnectionError, 
                Respond (ok_response (success_body ''data'' (JArr [])))]"
    by (simp add: always_down_def recording_env_def)
  have up: "[0 ..< 2] = [0, Suc 0]" by (simp add: upt_conv_Cons)
  show "submit_post_request flaky_then_ok demo_dict None None fresh_world =
     (Inr (success_body ''data'' (JArr [])),
      fresh_world\<lparr>posts := replicate 3 (query_request flaky_then_ok demo_dict None None),
                  sleeps := [1 / 2, 1]\<rparr>)"
    using retry_budget[of flaky_then_ok fresh_world demo_dict None None
        "ok_response (success_body ''data'' (JArr []))" "success_body ''data'' (JArr [])" "JBool True",
        THEN conjunct1]
    by (simp add: M t1 up all_less_2 scripted_def transient_def ok_response_def success_body_def
        fresh_world_def)
  show "submit_post_request always_down demo_dict None None fresh_world =
     (Inl (APIQueryFailedException
             [AStr ''Query has timed out. The most likely cause is a query calling for too much data at once. Please check the filters and avoid calling for unnecessary data. Also possible are that the timeout value may have been set too low, or a network error could be preventing proper communication with the API server.'',
              AJson (JObj [(''token'', JStr ''**********''), (''query'', JStr ''q'')])]),
      fresh_world\<lparr>posts := replicate 3 (query_request always_down demo_dict None None),
                  sleeps := [1 / 2, 1]\<rparr>)"
    using retry_budget[of always_down fresh_world demo_dict None None,
        THEN conjunct2, THEN conjunct1]
    by (simp add: M t2 up all_less_3 scripted_def transient_def fresh_world_def mask_token_def demo_dict_def)
qed

section \<open>Status 520\<close>

text \<open>
  Claim C7. A response with status 520 makes \<^verbatim>\<open>_submit_post_request\<close> fail with the fixed
  message of the source, written out below (``Query has timed out. The most likely cause is
  a query calling for too much data at once. ...''), and the masked request, whatever the body
  of the response holds and however many transient failures came before it; the failure is
  terminal: the POST that got the 520 is the last one, and no delay follows it.
\<close>

theorem status_520_terminal:
  "(\<forall>j<k. transient (transport E (length (posts w) + j) (query_request E jd t h)))
     \<and> k \<le> MAX_RETRIES E
     \<and> transport E (length (posts w) + k) (query_request E jd t h) = Respond r
     \<and> status_code r = 520
   \<longrightarrow> submit_post_request E jd t h w =
         (Inl (APIQueryFailedException
                 [AStr ''Query has timed out. The most likely cause is a query calling for too much data at once. Please check the filters and avoid calling for unnecessary data.'',
                  AJson (JObj (mask_token jd))]),
          w\<lparr>posts := posts w @ replicate (k + 1) (query_request E jd t h),
             sleeps := sleeps w @ map (\<lambda>j. 1 / 2 * (1 + of_nat j)) [0 ..< k]\<rparr>)"
proof
  let ?rq = "query_request E jd t h"
  let ?M = "MAX_RETRIES E"
  let ?w = "w\<lparr>posts := posts w @ replicate k ?rq,
               sleeps := sleeps w @ map (\<lambda>j. 1 / 2 * (1 + of_nat j)) [0 ..< k]\<rparr>"
  assume a: "(\<forall>j<k. transient (transport E (length (posts w) + j) ?rq))
     \<and> k \<le> ?M \<and> transport E (length (posts w) + k) ?rq = Respond r \<and> status_code r = 520"
  then have pre: "submit_attempts E jd t h [0 ..< ?M + 1] w = submit_attempts E jd t h [k ..< ?M + 1] ?w"
    using transient_prefix[of k E w jd t h 0 "?M + 1"] by simp
  from a have idx: "[k ..< ?M + 1] = k # [Suc k ..< ?M + 1]"
    by (simp add: upt_conv_Cons)
  from a have "transport E (length (posts ?w)) ?rq = Respond r" by simp
  from attempt_Respond[OF this, of k "[Suc k ..< ?M + 1]"] a
  have "submit_attempts E jd t h (k # [Suc k ..< ?M + 1]) ?w =
      (Inl (APIQueryFailedException [AStr msg_too_much_data, AJson (JObj (mask_token jd))]),
       ?w\<lparr>posts := posts ?w @ [?rq]\<rparr>)"
    by (simp add: classify_520)
  with pre idx show "submit_post_request E jd t h w =
         (Inl (APIQueryFailedException
                 [AStr ''Query has timed out. The most likely cause is a query calling for too much data at once. Please check the filters and avoid calling for unnecessary data.'',
                  AJson (JObj (mask_token jd))]),
          w\<lparr>posts := posts w @ replicate (k + 1) ?rq,
             sleeps := sleeps w @ map (\<lambda>j. 1 / 2 * (1 + of_nat j)) [0 ..< k]\<rparr>)"
    unfolding submit_post_request_def
    by (simp add: replicate_append_same msg_too_much_data_def)
qed

text \<open>A timeout, then a 520 with a body that is not JSON: two POSTs, one delay.\<close>

theorem status_520_terminal_witness:
  "submit_post_request gateway_520 demo_dict None None fresh_world =
     (Inl (APIQueryFailedException
             [AStr ''Query has timed out. The most likely cause is a query calling for too much data at once. Please check the filters and avoid calling for unnecessary data.'',
              AJson (JObj [(''token'', JStr ''**********''), (''query'', JStr ''q'')])]),
      fresh_world\<lparr>posts := replicate 2 (query_request gateway_520 demo_dict None None),
                  sleeps := [1 / 2]\<rparr>)"
proof -
  have M: "MAX_RETRIES gateway_520 = 2"
    by (simp add: gateway_520_def recording_env_def)
  have t: "transport gateway_520 =
      scripted [Raise Timeout, Respond (status_response 520 ''upstream gave up'')]"
    by (simp add: gateway_520_def recording_env_def)
  show ?thesis
    using status_520_terminal[of 1 gateway_520 fresh_world demo_dict None None
        "status_response 520 ''upstream gave up''"]
    by (simp add: M t scripted_def transient_def status_response_def fresh_world_def
        mask_token_def demo_dict_def numeral_2_eq_2)
qed

section \<open>The empty batch\<close>

lemma py_range_empty: "py_range 0 0 step = []"
  by simp

text \<open>
  Claim C10. For the empty mapping of queries and every chunk size of at least 1,
  \<^verbatim>\<open>query_api_multiple\<close> returns the empty mapping and leaves the world as it was: no POST,
  no delay.
\<close>

theorem empty_mapping_no_calls:
  "1 \<le> chunksize \<Longrightarrow>
     query_api_multiple E [] timeout chunksize time_between_chunks headers w = (Inr [], w)"
  by (simp add: query_api_multiple_def)

text \<open>The default chunk size, 500.\<close>

theorem empty_mapping_no_calls_witness:
  "query_api_multiple flaky_then_ok [] (Some 60) 500 None None fresh_world = (Inr [], fresh_world)"
  using empty_mapping_no_calls[of 500 flaky_then_ok "Some 60" None None fresh_world] by simp

section \<open>What a failure carries\<close>

lemma submit_after_transients:
  assumes "\<forall>j<k. transient (transport E (length (posts w) + j) (query_request E jd t h))"
    and "k \<le> MAX_RETRIES E"
    and "transport E (length (posts w) + k) (query_request E jd t h) = Respond r"
  shows "submit_post_request E jd t h w =
         (classify jd r,
          w\<lparr>posts := posts w @ replicate (k + 1) (query_request E jd t h),
             sleeps := sleeps w @ map (\<lambda>j. 1 / 2 * (1 + of_nat j)) [0 ..< k]\<rparr>)"
proof -
  let ?rq = "query_request E jd t h"
  let ?M = "MAX_RETRIES E"
  let ?w = "w\<lparr>posts := posts w @ replicate k ?rq,
               sleeps := sleeps w @ map (\<lambda>j. 1 / 2 * (1 + of_nat j)) [0 ..< k]\<rparr>"
  have pre: "submit_attempts E jd t h [0 ..< ?M + 1] w = submit_attempts E jd t h [k ..< ?M + 1] ?w"
    using transient_prefix[of k E w jd t h 0 "?M + 1"] assms by simp
  have idx: "[k ..< ?M + 1] = k # [Suc k ..< ?M + 1]"
    using assms(2) by (simp add: upt_conv_Cons)
  have "transport E (length (posts ?w)) ?rq = Respond r" using assms(3) by simp
  from attempt_Respond[OF this, of k "[Suc k ..< ?M + 1]"] pre idx
  show ?thesis
    unfolding submit_post_request_def by (simp add: replicate_append_same)
qed

lemma submit_exhausted:
  assumes "\<forall>j < MAX_RETRIES E + 1. transient (transport E (length (posts w) + j) (query_request E jd t h))"
  shows "submit_post_request E jd t h w =
          (Inl (APIQueryFailedException
                  [AStr msg_retries_exhausted, AJson (JObj (mask_token jd))]),
           w\<lparr>posts := posts w @ replicate (MAX_RETRIES E + 1) (query_request E jd t h),
              sleeps := sleeps w @ map (\<lambda>j. 1 / 2 * (1 + of_nat j)) [0 ..< MAX_RETRIES E]\<rparr>)"
proof -
  let ?rq = "query_request E jd t h"
  let ?M = "MAX_RETRIES E"
  let ?w = "w\<lparr>posts := posts w @ replicate ?M ?rq,
               sleeps := sleeps w @ map (\<lambda>j. 1 / 2 * (1 + of_nat j)) [0 ..< ?M]\<rparr>"
  have pre: "submit_attempts E jd t h [0 ..< ?M + 1] w = submit_attempts E jd t h [?M ..< ?M + 1] ?w"
    using transient_prefix[of ?M E w jd t h 0 "?M + 1"] assms by simp
  have last_idx: "[?M ..< ?M + 1] = [?M]" by simp
  from assms have "transient (transport E (length (posts ?w)) ?rq)" by simp
  then obtain e where e: "transport E (length (posts ?w)) ?rq = Raise e"
      "e = ConnectionError \<or> e = Timeout"
    by (auto simp: transient_def)
  from attempt_transient_last[OF e, of ?M "[]"] pre
  show ?thesis
    unfolding submit_post_request_def last_idx by (simp add: replicate_append_same)
qed








section \<open>The two decoders of a single query\<close>

lemma ok_env_facts:
  "MAX_RETRIES (recording_env m tok net) = m"
  "transport (recording_env m tok net) = net"
  "get_api_token (recording_env m tok net) = tok"
  "pd_DataFrame (recording_env m tok net) = Inr"
  "upper_columns (recording_env m tok net) = Inr"
  by (simp_all add: recording_env_def)

text \<open>
  Claim C8, as amended. For every successful single-query response (status 200, a true
  \<^verbatim>\<open>success\<close> field, a \<^verbatim>\<open>data\<close> field \<open>d\<close>), reached after any number of retries within the
  budget, \<^verbatim>\<open>query_api_json\<close> returns the first element of \<open>d\<close> (or fails as the
  subscription \<^verbatim>\<open>d[0]\<close> fails), and \<^verbatim>\<open>query_api_df\<close> builds its table from the whole of
  \<open>d\<close>, not from its first element. Both issue the same POSTs.
\<close>

theorem single_query_decoders:
  "(\<forall>j<k. transient (transport E (length (posts w) + j)
       (query_request E [(''token'', JStr (get_api_token E)), (''query'', to_api_struct q)] t h)))
     \<and> k \<le> MAX_RETRIES E
     \<and> transport E (length (posts w) + k)
         (query_request E [(''token'', JStr (get_api_token E)), (''query'', to_api_struct q)] t h)
         = Respond r
     \<and> status_code r = 200 \<and> json_body r = Some payload
     \<and> getitem payload ''success'' = Inr s \<and> truthy s
     \<and> getitem payload ''data'' = Inr d
   \<longrightarrow> fst (query_api_json E q t h w) = getitem0 d
       \<and> fst (query_api_df E q t h w) = to_upper_df E d
       \<and> snd (query_api_json E q t h w) = snd (query_api_df E q t h w)"
proof
  let ?jd = "[(''token'', JStr (get_api_token E)), (''query'', to_api_struct q)]"
  assume a: "(\<forall>j<k. transient (transport E (length (posts w) + j) (query_request E ?jd t h)))
     \<and> k \<le> MAX_RETRIES E
     \<and> transport E (length (posts w) + k) (query_request E ?jd t h) = Respond r
     \<and> status_code r = 200 \<and> json_body r = Some payload
     \<and> getitem payload ''success'' = Inr s \<and> truthy s
     \<and> getitem payload ''data'' = Inr d"
  then have c: "classify ?jd r = Inr payload"
    by (simp add: classify_ok)
  from a have "submit_post_request E ?jd t h w =
         (classify ?jd r,
          w\<lparr>posts := posts w @ replicate (k + 1) (query_request E ?jd t h),
             sleeps := sleeps w @ map (\<lambda>j. 1 / 2 * (1 + of_nat j)) [0 ..< k]\<rparr>)"
    using submit_after_transients[of k E w ?jd t h r] by blast
  with c a show "fst (query_api_json E q t h w) = getitem0 d
       \<and> fst (query_api_df E q t h w) = to_upper_df E d
       \<and> snd (query_api_json E q t h w) = snd (query_api_df E q t h w)"
    by (simp add: query_api_json_def query_api_df_def)
qed

text \<open>
  A \<^verbatim>\<open>data\<close> field that is a one-element list holding a row list of one row: the first
  decoder returns the row list, the second one decodes the list around it.
\<close>

theorem single_query_decoders_witness:
  "fst (query_api_json nested_reply demo_query None None fresh_world) = Inr (JArr [demo_row])
   \<and> fst (query_api_df nested_reply demo_query None None fresh_world)
       = Inr (JArr [JArr [demo_row]])"
  using single_query_decoders[of 0 nested_reply fresh_world demo_query None None
      "ok_response (success_body ''data'' (JArr [JArr [demo_row]]))"
      "success_body ''data'' (JArr [JArr [demo_row]])" "JBool True" "JArr [JArr [demo_row]]"]
  by (simp add: nested_reply_def ok_env_facts scripted_def ok_response_def success_body_def
      fresh_world_def to_upper_df_def)

text \<open>
  Claim C8 as stated fails: on that response \<^verbatim>\<open>query_api_df\<close> does not return the table of
  the contained row list, which is what \<^verbatim>\<open>query_api_json\<close> returns.
\<close>

theorem df_decodes_whole_data_counterexample:
  "fst (query_api_json nested_reply demo_query None None fresh_world) = Inr (JArr [demo_row])
   \<and> fst (query_api_df nested_reply demo_query None None fresh_world)
       \<noteq> to_upper_df nested_reply (JArr [demo_row])"
proof -
  let ?jd = "[(''token'', JStr ''tok''), (''query'', JStr ''q'')]"
  have run: "submit_post_request nested_reply ?jd None None fresh_world =
      (Inr (success_body ''data'' (JArr [JArr [demo_row]])),
       fresh_world\<lparr>posts := [query_request nested_reply ?jd None None]\<rparr>)"
    unfolding submit_post_request_def
    by (simp add: nested_reply_def ok_env_facts upt_conv_Cons submit_attempts.simps(2)
        requests_post_def scripted_def ok_response_def success_body_def classify_def
        response_json_def fresh_world_def)
  have env: "get_api_token nested_reply = ''tok''" "pd_DataFrame nested_reply = Inr"
    "upper_columns nested_reply = Inr"
    by (simp_all add: nested_reply_def ok_env_facts)
  show ?thesis
    by (simp add: query_api_json_def query_api_df_def demo_query_def env run success_body_def demo_row_def
        to_upper_df_def)
qed

section \<open>The checks of \<^verbatim>\<open>create_job\<close>\<close>

lemma create_job_rejected:
  "create_job_checks E geolevel response_format portfolio_id buffers = Some e \<Longrightarrow>
     create_job E self model_id geolevel response_format portfolio_id geoid_list buffers w
       = (Inl e, w)"
  by (simp add: create_job_def)

lemma create_job_posts:
  assumes "create_job_checks E geolevel response_format portfolio_id buffers = None"
  shows "posts (snd (create_job E self model_id geolevel response_format portfolio_id
                       geoid_list buffers w)) =
           posts w @ [create_request E model_id geolevel response_format portfolio_id
                        (case geoid_list of None \<Rightarrow> [] | Some l \<Rightarrow> l)
                        (case buffers of None \<Rightarrow> [] | Some l \<Rightarrow> l)]
         \<and> sleeps (snd (create_job E self model_id geolevel response_format portfolio_id
                       geoid_list buffers w)) = sleeps w"
  using assms
  by (simp add: create_job_def requests_post_def log_line_def print_line_def Let_def
      split: outcome.splits sum.splits option.splits)

lemma checks_usage_error:
  "create_job_checks E geolevel response_format portfolio_id buffers = Some e \<Longrightarrow>
     e = AssertionError \<or> e = ValueError"
  by (simp add: create_job_checks_def split: if_splits)

text \<open>
  Claim C6, as amended. \<^verbatim>\<open>create_job\<close> checks its arguments before any network call, and
  an argument counts as supplied when it is a non-empty string (the source tests
  \<^verbatim>\<open>not geolevel\<close> and \<^verbatim>\<open>if geolevel:\<close>). A response format other than \<^verbatim>\<open>csv\<close> and
  \<^verbatim>\<open>json\<close>, a buffer outside the allowed ones, a supplied geolevel together with a
  portfolio id that is not \<^verbatim>\<open>None\<close>, neither of the two supplied, or a supplied geolevel
  outside US, METRO, GEOID2, GEOID5, ZIP, GEOID11: each makes the call fail with an
  assertion or value error and leaves the world as it was, so no POST is issued. In every
  other case exactly one POST is issued.
\<close>

theorem create_job_validation:
  "((response_format \<notin> {''csv'', ''json''}
      \<or> (\<exists>bs. buffers = Some bs \<and> \<not> set bs \<subseteq> set (BUFFERS_TUPLE E))
      \<or> (truthy_str geolevel \<and> portfolio_id \<noteq> None)
      \<or> (\<not> truthy_str geolevel \<and> \<not> truthy_str portfolio_id)
      \<or> (truthy_str geolevel
           \<and> geolevel \<notin> Some ` {''US'', ''METRO'', ''GEOID2'', ''GEOID5'', ''ZIP'', ''GEOID11''}))
    \<longrightarrow> (\<exists>e. (e = AssertionError \<or> e = ValueError)
           \<and> create_job E self model_id geolevel response_format portfolio_id geoid_list buffers w
               = (Inl e, w)))
   \<and> (\<not> (response_format \<notin> {''csv'', ''json''}
      \<or> (\<exists>bs. buffers = Some bs \<and> \<not> set bs \<subseteq> set (BUFFERS_TUPLE E))
      \<or> (truthy_str geolevel \<and> portfolio_id \<noteq> None)
      \<or> (\<not> truthy_str geolevel \<and> \<not> truthy_str portfolio_id)
      \<or> (truthy_str geolevel
           \<and> geolevel \<notin> Some ` {''US'', ''METRO'', ''GEOID2'', ''GEOID5'', ''ZIP'', ''GEOID11''}))
    \<longrightarrow> length (posts (snd (create_job E self model_id geolevel response_format portfolio_id
                               geoid_list buffers w))) = length (posts w) + 1)"
proof (intro conjI impI)
  let ?bad = "response_format \<notin> {''csv'', ''json''}
      \<or> (\<exists>bs. buffers = Some bs \<and> \<not> set bs \<subseteq> set (BUFFERS_TUPLE E))
      \<or> (truthy_str geolevel \<and> portfolio_id \<noteq> None)
      \<or> (\<not> truthy_str geolevel \<and> \<not> truthy_str portfolio_id)
      \<or> (truthy_str geolevel
           \<and> geolevel \<notin> Some ` {''US'', ''METRO'', ''GEOID2'', ''GEOID5'', ''ZIP'', ''GEOID11''})"
  have iff: "?bad \<longleftrightarrow> create_job_checks E geolevel response_format portfolio_id buffers \<noteq> None"
    by (cases buffers) (auto simp: create_job_checks_def)
  {
    assume ?bad
    with iff obtain e where e: "create_job_checks E geolevel response_format portfolio_id buffers = Some e"
      by blast
    from checks_usage_error[OF e] create_job_rejected[OF e]
    show "\<exists>e. (e = AssertionError \<or> e = ValueError)
           \<and> create_job E self model_id geolevel response_format portfolio_id geoid_list buffers w
               = (Inl e, w)"
      by blast
  }
  {
    assume "\<not> ?bad"
    with iff have "create_job_checks E geolevel response_format portfolio_id buffers = None"
      by blast
    from create_job_posts[OF this]
    show "length (posts (snd (create_job E self model_id geolevel response_format portfolio_id
                               geoid_list buffers w))) = length (posts w) + 1"
      by simp
  }
qed

text \<open>
  A geolevel together with a portfolio id is refused; the geolevel alone goes to the network.
\<close>

theorem create_job_validation_witness:
  "(\<exists>e. (e = AssertionError \<or> e = ValueError)
       \<and> create_job job_server runner0 ''model'' (Some ''US'') ''csv'' (Some ''p'') None None
            fresh_world = (Inl e, fresh_world))
   \<and> length (posts (snd (create_job job_server runner0 ''model'' (Some ''US'') ''csv'' None
                            None None fresh_world))) = 1"
proof
  show "\<exists>e. (e = AssertionError \<or> e = ValueError)
       \<and> create_job job_server runner0 ''model'' (Some ''US'') ''csv'' (Some ''p'') None None
            fresh_world = (Inl e, fresh_world)"
    using create_job_validation[of "''csv''" None job_server "Some ''US''" "Some ''p''" runner0
        "''model''" None fresh_world, THEN conjunct1]
    by simp
  show "length (posts (snd (create_job job_server runner0 ''model'' (Some ''US'') ''csv'' None
                            None None fresh_world))) = 1"
    using create_job_validation[of "''csv''" None job_server "Some ''US''" None runner0
        "''model''" None fresh_world, THEN conjunct2]
    by (simp add: fresh_world_def)
qed

text \<open>
  Claim C6 as stated fails: the empty string as geolevel, which is not one of the six
  levels, together with a portfolio id passes every check, and the job is created.
\<close>

theorem empty_geolevel_passes_counterexample:
  "fst (create_job job_server runner0 ''model'' (Some []) ''csv'' (Some ''p'') None None
          fresh_world)
     = Inr (runner0\<lparr>self_job_id := JStr ''job-1'', self_response_format := ''csv''\<rparr>)
   \<and> posts (snd (create_job job_server runner0 ''model'' (Some []) ''csv'' (Some ''p'') None None
                   fresh_world))
     = [create_request job_server ''model'' (Some []) ''csv'' (Some ''p'') [] []]"
proof -
  have t: "transport job_server 0 rq = Respond (ok_response job_created_body)" for rq
    by (simp add: job_server_def recording_env_def scripted_def)
  have c: "create_job_checks job_server (Some []) ''csv'' (Some ''p'') None = None"
    by (simp add: create_job_checks_def)
  show ?thesis
    by (simp add: create_job_def c requests_post_def t log_line_def runner0_def
        init_SDJobRunner_def fresh_world_def ok_response_def response_json_def
        job_created_body_def success_body_def)
qed

section \<open>One POST for each job call\<close>

lemma create_job_raise:
  assumes "create_job_checks E geolevel response_format portfolio_id buffers = None"
    and "transport E (length (posts w))
           (create_request E model_id geolevel response_format portfolio_id
              (case geoid_list of None \<Rightarrow> [] | Some l \<Rightarrow> l)
              (case buffers of None \<Rightarrow> [] | Some l \<Rightarrow> l)) = Raise x"
  shows "fst (create_job E self model_id geolevel response_format portfolio_id
                geoid_list buffers w) = Inl (RequestException x)"
  using assms
  by (simp add: create_job_def requests_post_def log_line_def print_line_def Let_def)

lemma check_job_status_posts:
  "is_str (self_job_id self) \<Longrightarrow>
     posts (snd (check_job_status E self w)) = posts w @ [status_request E self]
     \<and> sleeps (snd (check_job_status E self w)) = sleeps w
     \<and> stdout (snd (check_job_status E self w)) = stdout w"
  by (simp add: check_job_status_def requests_post_def
      split: outcome.splits sum.splits option.splits)

lemma check_job_status_raise:
  "is_str (self_job_id self) \<Longrightarrow>
   transport E (length (posts w)) (status_request E self) = Raise x \<Longrightarrow>
     fst (check_job_status E self w) = Inl (RequestException x)"
  by (simp add: check_job_status_def requests_post_def)

lemma download_posts:
  "is_str (self_job_id self) \<Longrightarrow>
     posts (snd (download_job_to_dataframe E self w)) = posts w @ [download_request E self]
     \<and> sleeps (snd (download_job_to_dataframe E self w)) = sleeps w
     \<and> stdout (snd (download_job_to_dataframe E self w)) = stdout w"
  by (simp add: download_job_to_dataframe_def requests_post_def
      split: outcome.splits sum.splits option.splits)

lemma download_raise:
  "is_str (self_job_id self) \<Longrightarrow>
   transport E (length (posts w)) (download_request E self) = Raise x \<Longrightarrow>
     fst (download_job_to_dataframe E self w) = Inl (RequestException x)"
  by (simp add: download_job_to_dataframe_def requests_post_def)

text \<open>
  Claim C9. A call of \<^verbatim>\<open>create_job\<close> whose arguments pass the checks, and a call of
  \<^verbatim>\<open>_check_job_status\<close> or \<^verbatim>\<open>download_job_to_dataframe\<close> on a created job, issues exactly
  one POST and never sleeps; an exception of that POST (a connection error or a timeout
  among them) is the result of the call, with no retry. A query submission against a
  transport that keeps failing transiently makes \<open>MAX_RETRIES + 1\<close> POSTs with
  \<open>MAX_RETRIES\<close> delays between them.
\<close>

theorem job_calls_post_once:
  "(create_job_checks E geolevel response_format portfolio_id buffers = None
    \<longrightarrow> posts (snd (create_job E self model_id geolevel response_format portfolio_id
                        geoid_list buffers w)) =
           posts w @ [create_request E model_id geolevel response_format portfolio_id
                        (case geoid_list of None \<Rightarrow> [] | Some l \<Rightarrow> l)
                        (case buffers of None \<Rightarrow> [] | Some l \<Rightarrow> l)]
       \<and> sleeps (snd (create_job E self model_id geolevel response_format portfolio_id
                        geoid_list buffers w)) = sleeps w
       \<and> (\<forall>x. transport E (length (posts w))
                 (create_request E model_id geolevel response_format portfolio_id
                    (case geoid_list of None \<Rightarrow> [] | Some l \<Rightarrow> l)
                    (case buffers of None \<Rightarrow> [] | Some l \<Rightarrow> l)) = Raise x
              \<longrightarrow> fst (create_job E self model_id geolevel response_format portfolio_id
                          geoid_list buffers w) = Inl (RequestException x)))
   \<and> (is_str (self_job_id self)
    \<longrightarrow> posts (snd (check_job_status E self w)) = posts w @ [status_request E self]
       \<and> sleeps (snd (check_job_status E self w)) = sleeps w
       \<and> (\<forall>x. transport E (length (posts w)) (status_request E self) = Raise x
              \<longrightarrow> fst (check_job_status E self w) = Inl (RequestException x))
       \<and> posts (snd (download_job_to_dataframe E self w)) = posts w @ [download_request E self]
       \<and> sleeps (snd (download_job_to_dataframe E self w)) = sleeps w
       \<and> (\<forall>x. transport E (length (posts w)) (download_request E self) = Raise x
              \<longrightarrow> fst (download_job_to_dataframe E self w) = Inl (RequestException x)))
   \<and> ((\<forall>j < MAX_RETRIES E + 1.
          transient (transport E (length (posts w) + j) (query_request E jd t h)))
    \<longrightarrow> length (posts (snd (submit_post_request E jd t h w)))
           = length (posts w) + (MAX_RETRIES E + 1)
       \<and> length (sleeps (snd (submit_post_request E jd t h w)))
           = length (sleeps w) + MAX_RETRIES E)"
proof (intro conjI impI allI)
  assume c: "create_job_checks E geolevel response_format portfolio_id buffers = None"
  from create_job_posts[OF c]
  show "posts (snd (create_job E self model_id geolevel response_format portfolio_id
                        geoid_list buffers w)) =
           posts w @ [create_request E model_id geolevel response_format portfolio_id
                        (case geoid_list of None \<Rightarrow> [] | Some l \<Rightarrow> l)
                        (case buffers of None \<Rightarrow> [] | Some l \<Rightarrow> l)]"
    and "sleeps (snd (create_job E self model_id geolevel response_format portfolio_id
                        geoid_list buffers w)) = sleeps w"
    by simp_all
  fix x
  assume "transport E (length (posts w))
                 (create_request E model_id geolevel response_format portfolio_id
                    (case geoid_list of None \<Rightarrow> [] | Some l \<Rightarrow> l)
                    (case buffers of None \<Rightarrow> [] | Some l \<Rightarrow> l)) = Raise x"
  from create_job_raise[OF c this]
  show "fst (create_job E self model_id geolevel response_format portfolio_id
                          geoid_list buffers w) = Inl (RequestException x)" .
next
  assume s: "is_str (self_job_id self)"
  from check_job_status_posts[OF s, of E w] download_posts[OF s, of E w]
  show "posts (snd (check_job_status E self w)) = posts w @ [status_request E self]"
    and "sleeps (snd (check_job_status E self w)) = sleeps w"
    and "posts (snd (download_job_to_dataframe E self w)) = posts w @ [download_request E self]"
    and "sleeps (snd (download_job_to_dataframe E self w)) = sleeps w"
    by simp_all
  {
    fix x
    assume "transport E (length (posts w)) (status_request E self) = Raise x"
    from check_job_status_raise[OF s this]
    show "fst (check_job_status E self w) = Inl (RequestException x)" .
  }
  {
    fix x
    assume "transport E (length (posts w)) (download_request E self) = Raise x"
    from download_raise[OF s this]
    show "fst (download_job_to_dataframe E self w) = Inl (RequestException x)" .
  }
next
  assume a: "\<forall>j < MAX_RETRIES E + 1.
          transient (transport E (length (posts w) + j) (query_request E jd t h))"
  from submit_exhausted[OF a]
  show "length (posts (snd (submit_post_request E jd t h w)))
           = length (posts w) + (MAX_RETRIES E + 1)"
    and "length (sleeps (snd (submit_post_request E jd t h w)))
           = length (sleeps w) + MAX_RETRIES E"
    by simp_all
qed

text \<open>With the network down, each job call makes one POST; a query makes three.\<close>

theorem job_calls_post_once_witness:
  "fst (create_job network_down runner1 ''model'' (Some ''US'') ''csv'' None None None fresh_world)
     = Inl (RequestException ConnectionError)
   \<and> posts (snd (create_job network_down runner1 ''model'' (Some ''US'') ''csv'' None None None
                   fresh_world))
     = [create_request network_down ''model'' (Some ''US'') ''csv'' None [] []]
   \<and> fst (check_job_status network_down runner1 fresh_world) = Inl (RequestException ConnectionError)
   \<and> posts (snd (check_job_status network_down runner1 fresh_world))
     = [status_request network_down runner1]
   \<and> fst (download_job_to_dataframe network_down runner1 fresh_world)
     = Inl (RequestException ConnectionError)
   \<and> posts (snd (download_job_to_dataframe network_down runner1 fresh_world))
     = [download_request network_down runner1]
   \<and> length (posts (snd (submit_post_request network_down demo_dict None None fresh_world))) = 3
   \<and> length (sleeps (snd (submit_post_request network_down demo_dict None None fresh_world))) = 2"
proof -
  have t: "transport network_down n rq = Raise ConnectionError" for n rq
    by (simp add: network_down_def recording_env_def unplugged_def)
  have M: "MAX_RETRIES network_down = 2"
    by (simp add: network_down_def recording_env_def)
  have c: "create_job_checks network_down (Some ''US'') ''csv'' None None = None"
    by (simp add: create_job_checks_def)
  have s: "is_str (self_job_id runner1)"
    by (simp add: runner1_def)
  have p: "posts fresh_world = []" "sleeps fresh_world = []"
    by (simp_all add: fresh_world_def)
  show ?thesis
    using job_calls_post_once[of network_down "Some ''US''" "''csv''" None None runner1 "''model''"
        None fresh_world demo_dict None None]
    by (simp add: t M c s p transient_def)
qed

section \<open>The polling loop of \<^verbatim>\<open>load_df_from_job_pipeline\<close>\<close>

lemma check_status_reports:
  "is_str (self_job_id self) \<Longrightarrow>
   transport E (length (posts w)) (status_request E self) = Respond r \<Longrightarrow> reports r st \<Longrightarrow>
     check_job_status E self w = (Inr st, w\<lparr>posts := posts w @ [status_request E self]\<rparr>)"
  by (auto simp: check_job_status_def requests_post_def reports_def response_json_def
      split: option.splits sum.splits)

lemma polled_0: "polled E self 0 w = w"
  by (simp add: polled_def)

lemma polled_Suc:
  "polled E self k
     (w\<lparr>stdout := stdout w @ replicate (if self_logging self then 1 else 0)
                                 ''Checking if job is complete...'',
        posts := posts w @ [status_request E self],
        sleeps := sleeps w @ [10]\<rparr>) = polled E self (Suc k) w"
  by (simp add: polled_def replicate_app_Cons_same flip: replicate_add)

lemma poll_step_processing:
  assumes "is_str (self_job_id self)"
    and "transport E (length (posts w)) (status_request E self) = Respond r"
    and "reports r (JStr ''Processing'')"
  shows "poll_loop E self (Suc n) w =
         poll_loop E self n
           (w\<lparr>stdout := stdout w @ replicate (if self_logging self then 1 else 0)
                                 ''Checking if job is complete...'',
              posts := posts w @ [status_request E self],
              sleeps := sleeps w @ [10]\<rparr>)"
proof -
  let ?w0 = "log_line self ''Checking if job is complete...'' w"
  have p: "posts ?w0 = posts w" by (simp add: log_line_def print_line_def)
  from check_status_reports[OF assms(1) _ assms(3), of E ?w0] assms(2) p
  have "check_job_status E self ?w0 =
      (Inr (JStr ''Processing''), ?w0\<lparr>posts := posts w @ [status_request E self]\<rparr>)"
    by simp
  then show ?thesis
    by (simp add: time_sleep_def log_line_def print_line_def)
qed

lemma poll_processing_prefix:
  assumes "is_str (self_job_id self)"
    and "\<forall>j<k. \<exists>r. transport E (length (posts w) + j) (status_request E self) = Respond r
            \<and> reports r (JStr ''Processing'')"
    and "k \<le> n"
  shows "poll_loop E self n w = poll_loop E self (n - k) (polled E self k w)"
  using assms(2,3)
proof (induction k arbitrary: n w)
  case 0
  then show ?case by (simp add: polled_0)
next
  case (Suc k)
  then obtain m where n: "n = Suc m" by (cases n) auto
  let ?w1 = "w\<lparr>stdout := stdout w @ replicate (if self_logging self then 1 else 0)
                                 ''Checking if job is complete...'',
              posts := posts w @ [status_request E self],
              sleeps := sleeps w @ [10]\<rparr>"
  from Suc.prems(1) obtain r where r: "transport E (length (posts w)) (status_request E self) = Respond r"
      "reports r (JStr ''Processing'')"
    by (metis add.right_neutral zero_less_Suc)
  have step: "poll_loop E self (Suc m) w = poll_loop E self m ?w1"
    by (rule poll_step_processing[OF assms(1) r])
  have hyp: "\<forall>j<k. \<exists>r. transport E (length (posts ?w1) + j) (status_request E self) = Respond r
            \<and> reports r (JStr ''Processing'')"
  proof (intro allI impI)
    fix j assume "j < k"
    then have "Suc j < Suc k" by simp
    with Suc.prems(1) have "\<exists>r. transport E (length (posts w) + Suc j) (status_request E self) = Respond r
            \<and> reports r (JStr ''Processing'')" by blast
    then show "\<exists>r. transport E (length (posts ?w1) + j) (status_request E self) = Respond r
            \<and> reports r (JStr ''Processing'')" by simp
  qed
  have "poll_loop E self m ?w1 = poll_loop E self (m - k) (polled E self k ?w1)"
    using Suc.IH[OF hyp, of m] Suc.prems(2) n by simp
  with step n show ?case
    by (simp add: polled_Suc)
qed

lemma polled_fields:
  "posts (polled E self k w) = posts w @ replicate k (status_request E self)"
  "sleeps (polled E self k w) = sleeps w @ replicate k 10"
  by (simp_all add: polled_def)

lemma poll_step_completed:
  assumes "is_str (self_job_id self)"
    and "transport E (length (posts w)) (status_request E self) = Respond r"
    and "reports r (JStr ''Completed'')"
  shows "poll_loop E self (Suc n) w =
         download_job_to_dataframe E self
           (w\<lparr>stdout := stdout w @ replicate (if self_logging self then 1 else 0)
                                 ''Checking if job is complete...'',
              posts := posts w @ [status_request E self]\<rparr>)"
proof -
  let ?w0 = "log_line self ''Checking if job is complete...'' w"
  have p: "posts ?w0 = posts w" by (simp add: log_line_def print_line_def)
  from check_status_reports[OF assms(1) _ assms(3), of E ?w0] assms(2) p
  have "check_job_status E self ?w0 =
      (Inr (JStr ''Completed''), ?w0\<lparr>posts := posts w @ [status_request E self]\<rparr>)"
    by simp
  then show ?thesis
    by (simp add: log_line_def print_line_def)
qed

lemma poll_step_other:
  assumes "is_str (self_job_id self)"
    and "transport E (length (posts w)) (status_request E self) = Respond r"
    and "reports r st" and "st \<noteq> JStr ''Completed''" and "st \<noteq> JStr ''Processing''"
  shows "poll_loop E self (Suc n) w =
         (Inl (APIQueryFailedException [AStr ''Job failed'', AJson st]),
           w\<lparr>stdout := stdout w @ replicate (if self_logging self then 1 else 0)
                                 ''Checking if job is complete...'',
              posts := posts w @ [status_request E self]\<rparr>)"
proof -
  let ?w0 = "log_line self ''Checking if job is complete...'' w"
  have p: "posts ?w0 = posts w" by (simp add: log_line_def print_line_def)
  from check_status_reports[OF assms(1) _ assms(3), of E ?w0] assms(2) p
  have "check_job_status E self ?w0 =
      (Inr st, ?w0\<lparr>posts := posts w @ [status_request E self]\<rparr>)"
    by simp
  then show ?thesis using assms(4,5)
    by (simp add: log_line_def print_line_def)
qed

lemma download_ok:
  assumes "is_str (self_job_id self)"
    and "transport E (length (posts w)) (download_request E self) = Respond r"
    and "status_code r = 200"
    and "self_response_format self = ''csv'' \<or> self_response_format self = ''json''"
  shows "download_job_to_dataframe E self w =
         ((if self_response_format self = ''csv'' then pd_read_csv E (content r)
           else pd_read_json E (content r)),
          w\<lparr>posts := posts w @ [download_request E self]\<rparr>)"
  using assms by (auto simp: download_job_to_dataframe_def requests_post_def)

lemma create_job_success:
  assumes "create_job E self model_id geolevel response_format portfolio_id geoid_list buffers w
           = (Inr self', w1)"
  shows "self_response_format self' = response_format"
    and "response_format = ''csv'' \<or> response_format = ''json''"
    and "self_logging self' = self_logging self"
proof -
  from assms have c: "create_job_checks E geolevel response_format portfolio_id buffers = None"
    by (cases "create_job_checks E geolevel response_format portfolio_id buffers")
      (simp_all add: create_job_def)
  then show "response_format = ''csv'' \<or> response_format = ''json''"
    by (simp add: create_job_checks_def split: if_splits)
  from assms c show "self_response_format self' = response_format"
    and "self_logging self' = self_logging self"
    by (auto simp: create_job_def Let_def split: prod.splits sum.splits if_splits)
qed

text \<open>
  Claim C3. Let \<^verbatim>\<open>create_job\<close> have succeeded with a string as job id. If the polls report
  Processing, Processing, Completed and the download answers with status 200,
  \<^verbatim>\<open>load_df_from_job_pipeline\<close> returns the decoded download, having slept exactly twice
  (10 each time) and POSTed the download right after the third poll. If the first 100
  polls all report Processing, it fails with ``Job never completed successfully'' after 100
  status POSTs, none of them a download. If a poll reports anything other than Completed
  or Processing, it fails at once with ``Job failed'' and that status: the poll is the last
  POST and no delay follows it.
\<close>

theorem pipeline_polling:
  assumes created:
    "create_job E self model_id geolevel response_format portfolio_id geoid_list buffers w
       = (Inr self', w1)"
    and job_id: "is_str (self_job_id self')"
  shows
    "(transport E (length (posts w1)) (status_request E self') = Respond r0
        \<and> reports r0 (JStr ''Processing'')
        \<and> transport E (length (posts w1) + 1) (status_request E self') = Respond r1
        \<and> reports r1 (JStr ''Processing'')
        \<and> transport E (length (posts w1) + 2) (status_request E self') = Respond r2
        \<and> reports r2 (JStr ''Completed'')
        \<and> transport E (length (posts w1) + 3) (download_request E self') = Respond r3
        \<and> status_code r3 = 200
      \<longrightarrow> fst (load_df_from_job_pipeline E self model_id geolevel response_format portfolio_id
                  buffers geoid_list w)
            = (if response_format = ''csv'' then pd_read_csv E (content r3)
               else pd_read_json E (content r3))
          \<and> posts (snd (snd (load_df_from_job_pipeline E self model_id geolevel response_format
                                portfolio_id buffers geoid_list w)))
            = posts w1 @ [status_request E self', status_request E self',
                          status_request E self', download_request E self']
          \<and> sleeps (snd (snd (load_df_from_job_pipeline E self model_id geolevel response_format
                                 portfolio_id buffers geoid_list w)))
            = sleeps w1 @ [10, 10])
     \<and> ((\<forall>j<100. \<exists>r. transport E (length (posts w1) + j) (status_request E self') = Respond r
                       \<and> reports r (JStr ''Processing''))
      \<longrightarrow> fst (load_df_from_job_pipeline E self model_id geolevel response_format portfolio_id
                  buffers geoid_list w)
            = Inl (APIQueryFailedException [AStr ''Job never completed successfully''])
          \<and> posts (snd (snd (load_df_from_job_pipeline E self model_id geolevel response_format
                                portfolio_id buffers geoid_list w)))
            = posts w1 @ replicate 100 (status_request E self')
          \<and> download_request E self' \<noteq> status_request E self'
          \<and> sleeps (snd (snd (load_df_from_job_pipeline E self model_id geolevel response_format
                                 portfolio_id buffers geoid_list w)))
            = sleeps w1 @ replicate 100 10)
     \<and> (k < 100
        \<and> (\<forall>j<k. \<exists>r. transport E (length (posts w1) + j) (status_request E self') = Respond r
                       \<and> reports r (JStr ''Processing''))
        \<and> transport E (length (posts w1) + k) (status_request E self') = Respond r
        \<and> reports r st \<and> st \<noteq> JStr ''Completed'' \<and> st \<noteq> JStr ''Processing''
      \<longrightarrow> fst (load_df_from_job_pipeline E self model_id geolevel response_format portfolio_id
                  buffers geoid_list w)
            = Inl (APIQueryFailedException [AStr ''Job failed'', AJson st])
          \<and> posts (snd (snd (load_df_from_job_pipeline E self model_id geolevel response_format
                                portfolio_id buffers geoid_list w)))
            = posts w1 @ replicate (k + 1) (status_request E self')
          \<and> sleeps (snd (snd (load_df_from_job_pipeline E self model_id geolevel response_format
                                 portfolio_id buffers geoid_list w)))
            = sleeps w1 @ replicate k 10)"
proof -
  let ?sq = "status_request E self'"
  let ?dq = "download_request E self'"
  let ?run = "load_df_from_job_pipeline E self model_id geolevel response_format portfolio_id
                  buffers geoid_list w"
  have run: "?run = (fst (poll_loop E self' 100 w1), self', snd (poll_loop E self' 100 w1))"
    by (simp add: load_df_from_job_pipeline_def created split: prod.splits)
  note fmt = create_job_success(1,2)[OF created]
  have a: "fst ?run = (if response_format = ''csv'' then pd_read_csv E (content r3)
               else pd_read_json E (content r3))
          \<and> posts (snd (snd ?run)) = posts w1 @ [?sq, ?sq, ?sq, ?dq]
          \<and> sleeps (snd (snd ?run)) = sleeps w1 @ [10, 10]"
    if h: "transport E (length (posts w1)) ?sq = Respond r0
        \<and> reports r0 (JStr ''Processing'')
        \<and> transport E (length (posts w1) + 1) ?sq = Respond r1
        \<and> reports r1 (JStr ''Processing'')
        \<and> transport E (length (posts w1) + 2) ?sq = Respond r2
        \<and> reports r2 (JStr ''Completed'')
        \<and> transport E (length (posts w1) + 3) ?dq = Respond r3
        \<and> status_code r3 = 200"
  proof -
    have two: "\<forall>j<2. \<exists>r. transport E (length (posts w1) + j) ?sq = Respond r
                       \<and> reports r (JStr ''Processing'')"
      using h by (auto simp: less_2_cases_iff)
    have n: "(100::nat) - 2 = Suc 97" by simp
    let ?w2 = "polled E self' 2 w1"
    have l1: "poll_loop E self' 100 w1 = poll_loop E self' (Suc 97) ?w2"
      using poll_processing_prefix[OF job_id two, of 100] n by simp
    have t2: "transport E (length (posts ?w2)) ?sq = Respond r2"
      using h by (simp add: polled_fields)
    let ?w3 = "?w2\<lparr>stdout := stdout ?w2 @ replicate (if self_logging self' then 1 else 0)
                                 ''Checking if job is complete...'',
              posts := posts ?w2 @ [?sq]\<rparr>"
    have l2: "poll_loop E self' (Suc 97) ?w2 = download_job_to_dataframe E self' ?w3"
      using poll_step_completed[OF job_id t2, of 97] h by simp
    have t3: "transport E (length (posts ?w3)) ?dq = Respond r3"
      using h by (simp add: polled_fields)
    have l3: "download_job_to_dataframe E self' ?w3 =
         ((if self_response_format self' = ''csv'' then pd_read_csv E (content r3)
           else pd_read_json E (content r3)),
          ?w3\<lparr>posts := posts ?w3 @ [?dq]\<rparr>)"
      using download_ok[OF job_id t3] h fmt by simp
    show ?thesis
      unfolding run l1 l2 l3 using fmt
      by (simp add: polled_fields numeral_2_eq_2)
  qed
  have b: "fst ?run = Inl (APIQueryFailedException [AStr ''Job never completed successfully''])
          \<and> posts (snd (snd ?run)) = posts w1 @ replicate 100 ?sq
          \<and> ?dq \<noteq> ?sq
          \<and> sleeps (snd (snd ?run)) = sleeps w1 @ replicate 100 10"
    if h: "\<forall>j<100. \<exists>r. transport E (length (posts w1) + j) ?sq = Respond r
                       \<and> reports r (JStr ''Processing'')"
  proof -
    have "poll_loop E self' 100 w1 = poll_loop E self' 0 (polled E self' 100 w1)"
      using poll_processing_prefix[OF job_id h, of 100] by simp
    then show ?thesis
      unfolding run
      by (simp add: polled_fields download_request_def status_request_def job_request_def)
  qed
  have c: "fst ?run = Inl (APIQueryFailedException [AStr ''Job failed'', AJson st])
          \<and> posts (snd (snd ?run)) = posts w1 @ replicate (k + 1) ?sq
          \<and> sleeps (snd (snd ?run)) = sleeps w1 @ replicate k 10"
    if h: "k < 100
        \<and> (\<forall>j<k. \<exists>r. transport E (length (posts w1) + j) ?sq = Respond r
                       \<and> reports r (JStr ''Processing''))
        \<and> transport E (length (posts w1) + k) ?sq = Respond r
        \<and> reports r st \<and> st \<noteq> JStr ''Completed'' \<and> st \<noteq> JStr ''Processing''"
  proof -
    from h have "k < 100" by blast
    then have n: "(100::nat) - k = Suc (99 - k)" by arith
    let ?wk = "polled E self' k w1"
    have l1: "poll_loop E self' 100 w1 = poll_loop E self' (Suc (99 - k)) ?wk"
      using poll_processing_prefix[OF job_id, of k E w1 100] h n by simp
    have t: "transport E (length (posts ?wk)) ?sq = Respond r"
      using h by (simp add: polled_fields)
    have l2: "poll_loop E self' (Suc (99 - k)) ?wk =
         (Inl (APIQueryFailedException [AStr ''Job failed'', AJson st]),
           ?wk\<lparr>stdout := stdout ?wk @ replicate (if self_logging self' then 1 else 0)
                                 ''Checking if job is complete...'',
              posts := posts ?wk @ [?sq]\<rparr>)"
      using poll_step_other[OF job_id t, of st "99 - k"] h by simp
    show ?thesis
      unfolding run l1 l2
      by (simp add: polled_fields replicate_append_same)
  qed
  from a b c show ?thesis by blast
qed

lemma created_by_double:
  assumes "transport E 0 (create_request E ''model'' (Some ''US'') ''csv'' None [] [])
           = Respond (ok_response job_created_body)"
  shows "create_job E runner0 ''model'' (Some ''US'') ''csv'' None None None fresh_world
         = (Inr runner1,
            fresh_world\<lparr>posts := [create_request E ''model'' (Some ''US'') ''csv'' None [] []]\<rparr>)"
proof -
  have c: "create_job_checks E (Some ''US'') ''csv'' None None = None"
    by (simp add: create_job_checks_def)
  show ?thesis
    using assms
    by (simp add: create_job_def c requests_post_def log_line_def runner0_def runner1_def
        init_SDJobRunner_def fresh_world_def ok_response_def response_json_def
        job_created_body_def success_body_def)
qed

lemma reports_double: "reports (ok_response (success_body ''message'' st)) st"
  by (simp add: reports_def ok_response_def success_body_def)

text \<open>
  Three transports: one that plays Processing, Processing, Completed and a download, one
  that reports Processing for ever, and one that reports Cancelled.
\<close>

theorem pipeline_polling_witness:
  "fst (load_df_from_job_pipeline job_done runner0 ''model'' (Some ''US'') ''csv'' None None None
          fresh_world) = Inr (JStr ''geoid,value'')
   \<and> sleeps (snd (snd (load_df_from_job_pipeline job_done runner0 ''model'' (Some ''US'') ''csv''
                          None None None fresh_world))) = [10, 10]
   \<and> fst (load_df_from_job_pipeline job_stuck runner0 ''model'' (Some ''US'') ''csv'' None None None
          fresh_world) = Inl (APIQueryFailedException [AStr ''Job never completed successfully''])
   \<and> fst (load_df_from_job_pipeline job_cancelled runner0 ''model'' (Some ''US'') ''csv'' None None
          None fresh_world)
       = Inl (APIQueryFailedException [AStr ''Job failed'', AJson (JStr ''Cancelled'')])"
proof (intro conjI)
  have id: "is_str (self_job_id runner1)" by (simp add: runner1_def)
  have p: "posts (fresh_world\<lparr>posts := [rq]\<rparr>) = [rq]" "sleeps (fresh_world\<lparr>posts := [rq]\<rparr>) = []"
    for rq by (simp_all add: fresh_world_def)
  have t1: "transport job_done =
     scripted [Respond (ok_response job_created_body),
                Respond processing_response,
                Respond processing_response,
                Respond (ok_response (success_body ''message'' (JStr ''Completed''))),
                Respond (status_response 200 ''geoid,value'')]"
    "pd_read_csv job_done = (\<lambda>c. Inr (JStr c))"
    by (simp_all add: job_done_def recording_env_def)
  have c1: "create_job job_done runner0 ''model'' (Some ''US'') ''csv'' None None None fresh_world
         = (Inr runner1,
            fresh_world\<lparr>posts := [create_request job_done ''model'' (Some ''US'') ''csv'' None [] []]\<rparr>)"
    by (rule created_by_double) (simp add: t1 scripted_def)
  have run1: "fst (load_df_from_job_pipeline job_done runner0 ''model'' (Some ''US'') ''csv'' None None None
          fresh_world) = Inr (JStr ''geoid,value'')
   \<and> posts (snd (snd (load_df_from_job_pipeline job_done runner0 ''model'' (Some ''US'') ''csv''
                          None None None fresh_world))) =
       [create_request job_done ''model'' (Some ''US'') ''csv'' None [] [],
        status_request job_done runner1, status_request job_done runner1,
        status_request job_done runner1, download_request job_done runner1]
   \<and> sleeps (snd (snd (load_df_from_job_pipeline job_done runner0 ''model'' (Some ''US'') ''csv''
                          None None None fresh_world))) = [10, 10]"
    using pipeline_polling[OF c1 id, THEN conjunct1, of processing_response processing_response
        "ok_response (success_body ''message'' (JStr ''Completed''))"
        "status_response 200 ''geoid,value''"]
    by (simp add: p t1 scripted_def processing_response_def reports_double status_response_def)
  from run1 show "fst (load_df_from_job_pipeline job_done runner0 ''model'' (Some ''US'') ''csv'' None None None
          fresh_world) = Inr (JStr ''geoid,value'')"
    and "sleeps (snd (snd (load_df_from_job_pipeline job_done runner0 ''model'' (Some ''US'') ''csv''
                          None None None fresh_world))) = [10, 10]"
    by simp_all
  have t2: "transport job_stuck = stuck_transport"
    by (simp add: job_stuck_def recording_env_def)
  have c2: "create_job job_stuck runner0 ''model'' (Some ''US'') ''csv'' None None None fresh_world
         = (Inr runner1,
            fresh_world\<lparr>posts := [create_request job_stuck ''model'' (Some ''US'') ''csv'' None [] []]\<rparr>)"
    by (rule created_by_double) (simp add: t2 stuck_transport_def)
  show "fst (load_df_from_job_pipeline job_stuck runner0 ''model'' (Some ''US'') ''csv'' None None None
          fresh_world) = Inl (APIQueryFailedException [AStr ''Job never completed successfully''])"
    using pipeline_polling[OF c2 id, THEN conjunct2, THEN conjunct1]
    by (simp add: p t2 stuck_transport_def processing_response_def reports_double)
  have t3: "transport job_cancelled =
     scripted [Respond (ok_response job_created_body),
                Respond (ok_response (success_body ''message'' (JStr ''Cancelled'')))]"
    by (simp add: job_cancelled_def recording_env_def)
  have c3: "create_job job_cancelled runner0 ''model'' (Some ''US'') ''csv'' None None None fresh_world
         = (Inr runner1,
            fresh_world\<lparr>posts := [create_request job_cancelled ''model'' (Some ''US'') ''csv'' None [] []]\<rparr>)"
    by (rule created_by_double) (simp add: t3 scripted_def)
  show "fst (load_df_from_job_pipeline job_cancelled runner0 ''model'' (Some ''US'') ''csv'' None None
          None fresh_world)
       = Inl (APIQueryFailedException [AStr ''Job failed'', AJson (JStr ''Cancelled'')])"
    using pipeline_polling[OF c3 id, THEN conjunct2, THEN conjunct2, of 0
        "ok_response (success_body ''message'' (JStr ''Cancelled''))" "JStr ''Cancelled''"]
    by (simp add: p t3 scripted_def reports_double)
qed

section \<open>The chunks of a batch\<close>

declare py_range.simps [simp del]









lemma comprehension_total:
  "set ks \<subseteq> fst ` set queries \<Longrightarrow> \<exists>structs. dict_comprehension queries ks acc = Inr structs"
proof (induction ks arbitrary: acc)
  case Nil
  then show ?case by simp
next
  case (Cons k ks)
  then have "k \<in> fst ` set queries" by simp
  then obtain q where "map_of queries k = Some q"
    by (metis domD dom_map_of_conv_image_fst)
  with Cons show ?case by simp
qed



section \<open>Running a batch\<close>




declare chunk_loop.simps(2) [simp del]


















section \<open>The dispatch of \<^verbatim>\<open>submit_query\<close>\<close>




end
